theory Spec2Isabelle
  imports Complex_Main
begin

section \<open>PPO with generalised advantage estimation (robojax)\<close>

text \<open>
  A shallow embedding of \<^verbatim>\<open>robojax/agents/ppo/ppo.py\<close>, \<^verbatim>\<open>robojax/agents/ppo/config.py\<close>
  and \<^verbatim>\<open>robojax/data/sampler.py\<close>.

  Conventions of the embedding.
  \<^item> A one-dimensional array is a list. A two-dimensional array of shape
    \<open>[time, num_envs]\<close> is a list of rows, one row per time step, each row holding one
    cell per environment. Cells of \<open>action\<close> and \<open>env_obs\<close> may themselves be arrays;
    their type is left open.
  \<^item> Array elements of floating type are exact reals in the buffer, the sampler and the
    update loop. The advantage estimator is also run on cells with infinities, NaN and
    overflow (type \<open>ieee\<close> below), for the claim that depends on them.
  \<^item> A Python exception is a value \<open>Inl e\<close> of a sum type; a normal return is \<open>Inr v\<close>.
  \<^item> Collaborators that the three files import but do not define (the splittable random
    number generator of \<open>jax.random\<close>, the environment loop, the loss functions,
    \<open>jax.grad\<close> and the \<open>Model\<close> class) are arguments of the functions that use them.
\<close>

subsection \<open>Errors and array helpers\<close>

datatype error = ShapeError | IndexError | ValueError | CollaboratorError

text \<open>
  An elementwise binary operation of \<open>jax.numpy\<close> on two one-dimensional arrays. Arrays of
  the same length are combined cell by cell. Arrays of different lengths are reported as
  \<open>ShapeError\<close>: \<open>jax.numpy\<close> raises for them unless one operand has length one (which it
  broadcasts); the buffers assembled by the environment loop never have that form.
\<close>

definition elementwise :: "('a \<Rightarrow> 'b \<Rightarrow> 'c) \<Rightarrow> 'a list \<Rightarrow> 'b list \<Rightarrow> error + 'c list" where
  "elementwise f xs ys =
     (if length xs = length ys then Inr (map2 f xs ys) else Inl ShapeError)"

text \<open>
  \<open>jax.lax.scan f init xs\<close>: the body is applied to the carry and to each element of \<open>xs\<close>
  in order; the outputs are stacked. An exception raised by the body ends the scan.
\<close>

primrec scan :: "('c \<Rightarrow> 'x \<Rightarrow> error + 'c \<times> 'y) \<Rightarrow> 'c \<Rightarrow> 'x list \<Rightarrow> error + 'c \<times> 'y list" where
  "scan f c [] = Inr (c, [])"
| "scan f c (x # xs) =
     (case f c x of
        Inl e \<Rightarrow> Inl e
      | Inr (c', y) \<Rightarrow>
          (case scan f c' xs of
             Inl e \<Rightarrow> Inl e
           | Inr (c'', ys) \<Rightarrow> Inr (c'', y # ys)))"

subsection \<open>Float cells with infinities and NaN\<close>

text \<open>
  The arrays of the source hold binary32 floats. Two carriers stand for them here. Where a
  claim is an identity of arithmetic, cells are exact reals. Where a claim depends on what
  the program does with values that are not finite, cells are of the type \<open>ieee\<close>: a finite
  value, an infinity or NaN, with the sums, differences and products of IEEE 754 on
  infinities and NaN, and with overflow: a finite result that round-to-nearest takes to
  an infinity (magnitude at least \<open>2^128 - 2^103\<close>) is that infinity. A finite result that
  stays finite is kept exact (rounding of the mantissa is not represented), and the two
  zeros are one value.
\<close>

datatype ieee = Fin real | PInf | NInf | NaN

definition overflow_threshold :: real where
  "overflow_threshold = 2 ^ 128 - 2 ^ 103"

definition fl :: "real \<Rightarrow> ieee" where
  "fl r = (if overflow_threshold \<le> r then PInf
           else if r \<le> - overflow_threshold then NInf
           else Fin r)"

fun ieee_add :: "ieee \<Rightarrow> ieee \<Rightarrow> ieee" where
  "ieee_add NaN y = NaN"
| "ieee_add x NaN = NaN"
| "ieee_add PInf NInf = NaN"
| "ieee_add NInf PInf = NaN"
| "ieee_add PInf y = PInf"
| "ieee_add x PInf = PInf"
| "ieee_add NInf y = NInf"
| "ieee_add x NInf = NInf"
| "ieee_add (Fin a) (Fin b) = fl (a + b)"

fun ieee_sub :: "ieee \<Rightarrow> ieee \<Rightarrow> ieee" where
  "ieee_sub NaN y = NaN"
| "ieee_sub x NaN = NaN"
| "ieee_sub PInf PInf = NaN"
| "ieee_sub NInf NInf = NaN"
| "ieee_sub PInf y = PInf"
| "ieee_sub x PInf = NInf"
| "ieee_sub NInf y = NInf"
| "ieee_sub x NInf = PInf"
| "ieee_sub (Fin a) (Fin b) = fl (a - b)"

fun ieee_mul :: "ieee \<Rightarrow> ieee \<Rightarrow> ieee" where
  "ieee_mul NaN y = NaN"
| "ieee_mul x NaN = NaN"
| "ieee_mul PInf PInf = PInf"
| "ieee_mul PInf NInf = NInf"
| "ieee_mul NInf PInf = NInf"
| "ieee_mul NInf NInf = PInf"
| "ieee_mul PInf (Fin b) = (if b = 0 then NaN else if 0 < b then PInf else NInf)"
| "ieee_mul NInf (Fin b) = (if b = 0 then NaN else if 0 < b then NInf else PInf)"
| "ieee_mul (Fin a) PInf = (if a = 0 then NaN else if 0 < a then PInf else NInf)"
| "ieee_mul (Fin a) NInf = (if a = 0 then NaN else if 0 < a then NInf else PInf)"
| "ieee_mul (Fin a) (Fin b) = fl (a * b)"

instantiation ieee :: "{zero, one, plus, minus, times}"
begin

definition zero_ieee :: ieee where
  "zero_ieee = Fin 0"

definition one_ieee :: ieee where
  "one_ieee = Fin 1"

definition plus_ieee :: "ieee \<Rightarrow> ieee \<Rightarrow> ieee" where
  "plus_ieee x y = ieee_add x y"

definition minus_ieee :: "ieee \<Rightarrow> ieee \<Rightarrow> ieee" where
  "minus_ieee x y = ieee_sub x y"

definition times_ieee :: "ieee \<Rightarrow> ieee \<Rightarrow> ieee" where
  "times_ieee x y = ieee_mul x y"

instance ..

end

fun is_finite :: "ieee \<Rightarrow> bool" where
  "is_finite (Fin a) = True"
| "is_finite x = False"

subsection \<open>Generalised advantage estimation\<close>

text \<open>
  The body of \<open>gae_advantages\<close> (ppo.py, lines 24 to 44), as it runs on one column of the
  buffer: \<open>rewards\<close> and \<open>dones\<close> of one environment and its \<open>values\<close>.
  \<open>~dones\<close> is a Boolean array; multiplied with a float array its cells count as 1 and 0.
  \<open>values[1:]\<close> is \<open>drop 1 values\<close> and \<open>values[:-1]\<close> is \<open>butlast values\<close>.
  \<open>jax.lax.stop_gradient\<close> does not change the value. The type of the cells is left open:
  the function is used with exact reals and with \<open>ieee\<close>.
\<close>

definition gae_advantages ::
  "'a::{zero, one, plus, minus, times} list \<Rightarrow> bool list \<Rightarrow> 'a list \<Rightarrow> 'a \<Rightarrow> 'a
     \<Rightarrow> error + 'a list" where
  "gae_advantages rewards dones values gamma gae_lambda =
     (let N = length rewards;
          not_dones = map (\<lambda>d. if d then 0 else (1::'a)) dones
      in case elementwise (*) (map ((*) gamma) (drop 1 values)) not_dones of
           Inl e \<Rightarrow> Inl e
         | Inr gv \<Rightarrow>
        (case elementwise (-) gv (butlast values) of
           Inl e \<Rightarrow> Inl e
         | Inr value_diffs \<Rightarrow>
        (case elementwise (+) rewards value_diffs of
           Inl e \<Rightarrow> Inl e
         | Inr deltas \<Rightarrow>
        (let body_fun = (\<lambda>gae t.
               let gae' = deltas ! t + gamma * gae_lambda * not_dones ! t * gae
               in Inr (gae', gae'));
             indices = rev [0..<N]
         in case scan body_fun 0 indices of
              Inl e \<Rightarrow> Inl e
            | Inr (_, advantages) \<Rightarrow> Inr (rev advantages)))))"

text \<open>
  The value that \<open>body_fun\<close> returns at index \<open>t\<close>, with the operations in the order of the
  source: \<open>deltas[t]\<close> is \<open>rewards[t] + (gamma * values[t+1] * not_dones[t] - values[t])\<close>
  (lines 29 and 30) and the carry is \<open>deltas[t] + gamma * gae_lambda * not_dones[t] * gae\<close>
  (line 33), \<open>gae\<close> being the carry at \<open>t + 1\<close>, or the initial \<open>0.0\<close> for the last index.
\<close>

function gae_carry ::
  "'a::{zero, one, plus, minus, times} list \<Rightarrow> bool list \<Rightarrow> 'a list \<Rightarrow> 'a \<Rightarrow> 'a \<Rightarrow> nat \<Rightarrow> 'a" where
  "gae_carry rewards dones values gamma gae_lambda t =
     (if length rewards \<le> t then 0
      else (rewards ! t
              + (gamma * values ! (t + 1) * (if dones ! t then 0 else 1) - values ! t))
           + gamma * gae_lambda * (if dones ! t then 0 else 1)
             * gae_carry rewards dones values gamma gae_lambda (t + 1))"
  by pat_completeness auto
termination
  by (relation "measure (\<lambda>(rewards, dones, values, gamma, gae_lambda, t). length rewards - t)")
    auto

declare gae_carry.simps [simp del]

text \<open>
  The recursion of the specification, section 4.1, written from its words:
  \<open>not_done[t] = 1 - dones[t]\<close>,
  \<open>delta[t] = rewards[t] + gamma * values[t+1] * not_done[t] - values[t]\<close>,
  \<open>gae[t] = delta[t] + gamma * lambda * not_done[t] * gae[t+1]\<close> and \<open>gae[N] = 0\<close>.
\<close>

definition spec_not_done :: "bool list \<Rightarrow> nat \<Rightarrow> real" where
  "spec_not_done dones t = 1 - (if dones ! t then 1 else 0)"

definition spec_delta :: "real list \<Rightarrow> bool list \<Rightarrow> real list \<Rightarrow> real \<Rightarrow> nat \<Rightarrow> real" where
  "spec_delta rewards dones values gamma t =
     rewards ! t + gamma * values ! (t + 1) * spec_not_done dones t - values ! t"

function spec_gae :: "real list \<Rightarrow> bool list \<Rightarrow> real list \<Rightarrow> real \<Rightarrow> real \<Rightarrow> nat \<Rightarrow> real" where
  "spec_gae rewards dones values gamma lam t =
     (if length rewards \<le> t then 0
      else spec_delta rewards dones values gamma t
           + gamma * lam * spec_not_done dones t * spec_gae rewards dones values gamma lam (t + 1))"
  by pat_completeness auto
termination
  by (relation "measure (\<lambda>(rewards, dones, values, gamma, lam, t). length rewards - t)") auto

declare spec_gae.simps [simp del]

text \<open>
  The decorator \<open>jax.vmap\<close> with \<open>in_axes = (1, 1, 1, None, None)\<close> and \<open>out_axes = 1\<close>
  (ppo.py, line 23): the body runs on every column of the three arrays and the results
  are stacked as the columns of the output. The size of the mapped axis is an argument,
  \<open>num_envs\<close>, since a list of rows that has no row does not carry it; arrays whose rows
  do not have that size are a \<open>ShapeError\<close>.
\<close>

definition column :: "nat \<Rightarrow> 'a list list \<Rightarrow> 'a list" where
  "column e xs = map (\<lambda>row. row ! e) xs"

primrec collect_results :: "(error + 'a) list \<Rightarrow> error + 'a list" where
  "collect_results [] = Inr []"
| "collect_results (r # rs) =
     (case r of
        Inl e \<Rightarrow> Inl e
      | Inr x \<Rightarrow> (case collect_results rs of Inl e \<Rightarrow> Inl e | Inr xs \<Rightarrow> Inr (x # xs)))"

definition gae_advantages_vmap ::
  "nat \<Rightarrow> real list list \<Rightarrow> bool list list \<Rightarrow> real list list \<Rightarrow> real \<Rightarrow> real
     \<Rightarrow> error + real list list" where
  "gae_advantages_vmap num_envs rewards dones values gamma gae_lambda =
     (if list_all (\<lambda>row. length row = num_envs) rewards
         \<and> list_all (\<lambda>row. length row = num_envs) dones
         \<and> list_all (\<lambda>row. length row = num_envs) values
      then case collect_results
                  (map (\<lambda>e. gae_advantages (column e rewards) (column e dones) (column e values)
                              gamma gae_lambda)
                       [0..<num_envs]) of
             Inl e \<Rightarrow> Inl e
           | Inr cols \<Rightarrow> Inr (map (\<lambda>t. map (\<lambda>c. c ! t) cols) [0..<length rewards])
      else Inl ShapeError)"

subsection \<open>Configuration and buffer\<close>

text \<open>The dataclass \<open>PPOConfig\<close> (config.py, lines 12 to 26). It has no validation code.\<close>

record PPOConfig =
  normalize_advantage :: bool
  gamma :: real
  gae_lambda :: real
  clip_ratio :: real
  ent_coef :: real
  pi_coef :: real
  vf_coef :: real
  dapg_lambda :: real
  dapg_damping :: real
  target_kl :: real

text \<open>
  The dataclass \<open>TimeStep\<close> (config.py, lines 29 to 39). Every field is an array; the
  record leaves the array types open, so that it serves for the buffer (fields of shape
  \<open>[time, num_envs]\<close>) and for a batch (fields with one leading axis). The fields \<open>value\<close>
  and \<open>done\<close> are called \<open>value_fld\<close> and \<open>done_fld\<close> here.
\<close>

record ('f, 'a, 'o, 'b, 'i) TimeStep =
  log_p :: 'f
  action :: 'a
  env_obs :: 'o
  adv :: 'f
  reward :: 'f
  ret :: 'f
  value_fld :: 'f
  done_fld :: 'b
  ep_len :: 'i

type_synonym ('a, 'o, 'i) buffer =
  "(real list list, 'a list list, 'o list list, bool list list, 'i list list) TimeStep"

type_synonym ('a, 'o, 'i) batch =
  "(real list, 'a list, 'o list, bool list, 'i list) TimeStep"

text \<open>
  \<open>advantages.mean()\<close> and \<open>advantages.std()\<close> of \<open>jax.numpy\<close>: both reduce over all cells of
  the array, and the standard deviation is the population one,
  \<open>sqrt(mean(abs(x - x.mean()) ** 2))\<close>. On an array without cells \<open>jax.numpy\<close> returns NaN
  and the model 0; \<open>collect_buffer\<close> then combines it with no cell.
\<close>

definition mean :: "real list list \<Rightarrow> real" where
  "mean xs = sum_list (concat xs) / real (length (concat xs))"

definition std :: "real list list \<Rightarrow> real" where
  "std xs = sqrt (mean (map (map (\<lambda>x. \<bar>x - mean xs\<bar> ^ 2)) xs))"

text \<open>
  \<open>PPO.collect_buffer\<close> (ppo.py, lines 254 to 292). The arguments \<open>split\<close> and \<open>rollout\<close>
  stand for \<open>jax.random.split\<close> with a count and for \<open>self.loop.rollout\<close>; an exception of
  the loop is passed on. The conversion \<open>TimeStep(**buffer)\<close> of the branch for
  environments that are not written in JAX builds the same record from a dictionary.
  \<open>x[:-1]\<close> is \<open>butlast x\<close>; \<open>buffer.value[-1, :]\<close> raises \<open>IndexError\<close> on an array without
  rows; the sum of the advantages and that row adds the row to every row of the
  advantages.
\<close>

definition collect_buffer ::
  "PPOConfig \<Rightarrow> ('k \<Rightarrow> nat \<Rightarrow> 'k list)
     \<Rightarrow> ('k list \<Rightarrow> 'fn \<Rightarrow> int \<Rightarrow> error + ('a, 'o, 'i) buffer)
     \<Rightarrow> 'k \<Rightarrow> int \<Rightarrow> nat \<Rightarrow> 'fn \<Rightarrow> error + ('a, 'o, 'i) buffer \<times> unit" where
  "collect_buffer cfg split rollout rng_key rollout_steps_per_env num_envs apply_fn =
     (case split rng_key (num_envs + 1) of
        [] \<Rightarrow> Inl ValueError
      | rng_key' # env_rng_keys \<Rightarrow>
     (case rollout env_rng_keys apply_fn (rollout_steps_per_env + 1) of
        Inl e \<Rightarrow> Inl e
      | Inr buffer \<Rightarrow>
     (case gae_advantages_vmap num_envs (butlast (reward buffer)) (butlast (done_fld buffer))
             (value_fld buffer) (gamma cfg) (gae_lambda cfg) of
        Inl e \<Rightarrow> Inl e
      | Inr advantages0 \<Rightarrow>
     (let advantages =
            (if normalize_advantage cfg
             then map (map (\<lambda>a. (a - mean advantages0) / (std advantages0 + 1 / 10 ^ 8)))
                    advantages0
             else advantages0)
      in if value_fld buffer = [] then Inl IndexError
         else (case collect_results
                      (map (\<lambda>row. elementwise (+) row (last (value_fld buffer))) advantages) of
                 Inl e \<Rightarrow> Inl e
               | Inr returns \<Rightarrow>
                   Inr (buffer\<lparr>adv := advantages,
                               ret := returns,
                               log_p := butlast (log_p buffer),
                               action := butlast (action buffer),
                               env_obs := butlast (env_obs buffer),
                               done_fld := butlast (done_fld buffer),
                               ep_len := butlast (ep_len buffer)\<rparr>, ()))))))"

subsection \<open>Minibatch sampler\<close>

text \<open>
  The collaborators that the sampler and the update loop use and that the files at hand
  do not define, gathered in one record:
  \<^item> \<open>split\<close> and \<open>randint\<close> are \<open>jax.random.split\<close> (key and count) and
    \<open>jax.random.randint\<close> (key, length of the one-dimensional result, \<open>minval\<close>, \<open>maxval\<close>);
    with \<open>minval = 0\<close> the results are natural numbers;
  \<^item> \<open>actor_loss_fn\<close> and \<open>critic_loss_fn\<close> are the functions of \<open>robojax.agents.ppo.loss\<close>;
  \<^item> \<open>grad\<close> is \<open>jax.grad\<close> with \<open>has_aux = True\<close>;
  \<^item> \<open>params\<close>, \<open>apply_fn\<close> and \<open>apply_gradients\<close> are the two attributes and the method of
    \<open>robojax.models.model.Model\<close> that the update loop uses.
\<close>

record ('k, 'm, 'p, 'f, 'g, 'n, 'bt) collaborators =
  split :: "'k \<Rightarrow> nat \<Rightarrow> 'k list"
  randint :: "'k \<Rightarrow> nat \<Rightarrow> nat \<Rightarrow> nat \<Rightarrow> nat list"
  actor_loss_fn :: "real \<Rightarrow> 'f \<Rightarrow> 'bt \<Rightarrow> 'p \<Rightarrow> real \<times> 'n"
  critic_loss_fn :: "'f \<Rightarrow> 'bt \<Rightarrow> 'p \<Rightarrow> real \<times> 'n"
  grad :: "('p \<Rightarrow> real \<times> 'n) \<Rightarrow> 'p \<Rightarrow> 'g \<times> 'n"
  params :: "'m \<Rightarrow> 'p"
  apply_fn :: "'m \<Rightarrow> 'f"
  apply_gradients :: "'m \<Rightarrow> 'g \<Rightarrow> 'm"

text \<open>The attributes of \<open>BufferSampler\<close> (sampler.py, lines 16 to 20).\<close>

record 'b BufferSampler =
  buffer :: 'b
  buffer_size :: nat
  num_envs :: nat

text \<open>
  \<open>x[batch_ids, env_ids]\<close> on an array with two leading axes and two index arrays of the
  same length: cell \<open>i\<close> of the result is \<open>x[batch_ids[i], env_ids[i]]\<close>. As JAX does when
  it reads, an index beyond the end of an axis is clamped to the last position; an axis of
  size zero has no position to read and is an \<open>IndexError\<close>. Index arrays of different
  lengths are a \<open>ShapeError\<close>, as in \<open>elementwise\<close>.
\<close>

definition gather :: "'a list list \<Rightarrow> nat list \<Rightarrow> nat list \<Rightarrow> error + 'a list" where
  "gather x batch_ids env_ids =
     (if length batch_ids \<noteq> length env_ids then Inl ShapeError
      else if x = [] \<or> list_ex (\<lambda>row. row = []) x then Inl IndexError
      else Inr (map2 (\<lambda>t e. let row = x ! min t (length x - 1)
                              in row ! min e (length row - 1))
                  batch_ids env_ids))"

definition and_then :: "error + 'a \<Rightarrow> ('a \<Rightarrow> error + 'b) \<Rightarrow> error + 'b" where
  "and_then r f = (case r of Inl e \<Rightarrow> Inl e | Inr x \<Rightarrow> f x)"

text \<open>
  \<open>BufferSampler._get_batch_by_ids\<close> (sampler.py, lines 47 to 55): the loop over the fields
  of the buffer, in the order of their declaration. The result is the dictionary from
  which \<open>update_step_fn\<close> builds a \<open>TimeStep\<close>; the model builds the record at once.
\<close>

definition get_batch_by_ids ::
  "('a, 'o, 'i) buffer BufferSampler \<Rightarrow> nat list \<Rightarrow> nat list \<Rightarrow> error + ('a, 'o, 'i) batch" where
  "get_batch_by_ids self batch_ids env_ids =
     and_then (gather (log_p (buffer self)) batch_ids env_ids) (\<lambda>d_log_p.
     and_then (gather (action (buffer self)) batch_ids env_ids) (\<lambda>d_action.
     and_then (gather (env_obs (buffer self)) batch_ids env_ids) (\<lambda>d_env_obs.
     and_then (gather (adv (buffer self)) batch_ids env_ids) (\<lambda>d_adv.
     and_then (gather (reward (buffer self)) batch_ids env_ids) (\<lambda>d_reward.
     and_then (gather (ret (buffer self)) batch_ids env_ids) (\<lambda>d_ret.
     and_then (gather (value_fld (buffer self)) batch_ids env_ids) (\<lambda>d_value.
     and_then (gather (done_fld (buffer self)) batch_ids env_ids) (\<lambda>d_done.
     and_then (gather (ep_len (buffer self)) batch_ids env_ids) (\<lambda>d_ep_len.
       Inr \<lparr>log_p = d_log_p, action = d_action, env_obs = d_env_obs, adv = d_adv,
            reward = d_reward, ret = d_ret, value_fld = d_value, done_fld = d_done,
            ep_len = d_ep_len\<rparr>)))))))))"

text \<open>
  \<open>BufferSampler.sample_random_batch\<close> (sampler.py, lines 31 to 45). Unpacking the result
  of \<open>jax.random.split(rng_key)\<close> into two names raises \<open>ValueError\<close> unless it has two
  keys.
\<close>

definition sample_random_batch ::
  "('k, 'm, 'p, 'f, 'g, 'n, 'bt) collaborators \<Rightarrow> ('a, 'o, 'i) buffer BufferSampler \<Rightarrow> 'k \<Rightarrow> nat
     \<Rightarrow> error + ('a, 'o, 'i) batch" where
  "sample_random_batch jx self rng_key batch_size =
     (case split jx rng_key 2 of
        [rng_key1, batch_ids_rng_key] \<Rightarrow>
          (let batch_ids = randint jx batch_ids_rng_key batch_size 0 (buffer_size self)
           in case split jx rng_key1 2 of
                [rng_key2, env_ids_rng_key] \<Rightarrow>
                  (let env_ids = randint jx env_ids_rng_key batch_size 0 (num_envs self)
                   in get_batch_by_ids self batch_ids env_ids)
              | _ \<Rightarrow> Inl ValueError)
      | _ \<Rightarrow> Inl ValueError)"

subsection \<open>Update loop\<close>

text \<open>
  \<open>update_step_fn\<close>, the body of the scan in \<open>PPO.update_parameters\<close> (ppo.py, lines 219 to
  244). \<open>info_a\<close> and \<open>info_c\<close> stay \<open>None\<close> when the respective update is switched off.
\<close>

definition update_step_fn ::
  "('k, 'm, 'p, 'f, 'g, 'n, ('a, 'o, 'i) batch) collaborators \<Rightarrow> PPOConfig
     \<Rightarrow> ('a, 'o, 'i) buffer BufferSampler \<Rightarrow> bool \<Rightarrow> bool \<Rightarrow> nat
     \<Rightarrow> 'k \<times> 'm \<times> 'm \<Rightarrow> unit \<Rightarrow> error + ('k \<times> 'm \<times> 'm) \<times> ('n option \<times> 'n option)" where
  "update_step_fn jx cfg sampler update_actor update_critic batch_size data unused =
     (case data of (rng_key, actor, critic) \<Rightarrow>
      (case split jx rng_key 2 of
         [rng_key1, sample_rng_key] \<Rightarrow>
           (case sample_random_batch jx sampler sample_rng_key batch_size of
              Inl e \<Rightarrow> Inl e
            | Inr batch \<Rightarrow>
               (let (new_actor, info_a) =
                      (if update_actor
                       then (let grads_a_fn =
                                   grad jx (actor_loss_fn jx (clip_ratio cfg) (apply_fn jx actor) batch);
                                 (grads, info) = grads_a_fn (params jx actor)
                             in (apply_gradients jx actor grads, Some info))
                       else (actor, None));
                    (new_critic, info_c) =
                      (if update_critic
                       then (let grads_c_fn =
                                   grad jx (critic_loss_fn jx (apply_fn jx critic) batch);
                                 (grads, info) = grads_c_fn (params jx critic)
                             in (apply_gradients jx critic grads, Some info))
                       else (critic, None))
                in Inr ((rng_key1, new_actor, new_critic), (info_a, info_c))))
       | _ \<Rightarrow> Inl ValueError))"

text \<open>
  \<open>PPO.update_parameters\<close> (ppo.py, lines 203 to 252). \<open>jax.lax.scan\<close> with \<open>xs = ()\<close> and
  \<open>length = update_iters\<close> runs the body \<open>update_iters\<close> times; the count is a natural
  number here.
\<close>

definition update_parameters ::
  "('k, 'm, 'p, 'f, 'g, 'n, ('a, 'o, 'i) batch) collaborators \<Rightarrow> PPOConfig \<Rightarrow> 'k \<Rightarrow> 'm \<Rightarrow> 'm
     \<Rightarrow> bool \<Rightarrow> bool \<Rightarrow> nat \<Rightarrow> nat \<Rightarrow> nat \<Rightarrow> ('a, 'o, 'i) buffer
     \<Rightarrow> error + 'm \<times> 'm \<times> ('n option \<times> 'n option) list" where
  "update_parameters jx cfg rng_key actor critic update_actor update_critic update_iters
       envs batch_size buf =
     (let sampler = \<lparr>buffer = buf, buffer_size = length (action buf), num_envs = envs\<rparr>;
          update_init = (rng_key, actor, critic)
      in case scan (update_step_fn jx cfg sampler update_actor update_critic batch_size)
                update_init (replicate update_iters ()) of
           Inl e \<Rightarrow> Inl e
         | Inr ((_, actor', critic'), update_aux) \<Rightarrow> Inr (actor', critic', update_aux))"

subsection \<open>Vocabulary of the statements\<close>

text \<open>
  An array of shape \<open>[T, E]\<close>. A field that the sampler can read at every time step below
  \<open>T\<close> and every environment below \<open>E\<close> has at least \<open>T\<close> rows of \<open>E\<close> cells each. A sampler
  is well formed when its buffer is not empty and all nine fields can be read.
\<close>

definition has_shape :: "nat \<Rightarrow> nat \<Rightarrow> 'a list list \<Rightarrow> bool" where
  "has_shape T E xs = (length xs = T \<and> list_all (\<lambda>row. length row = E) xs)"

definition field_ok :: "nat \<Rightarrow> nat \<Rightarrow> 'a list list \<Rightarrow> bool" where
  "field_ok T E xs = (T \<le> length xs \<and> list_all (\<lambda>row. length row = E) xs)"

definition sampler_ok :: "('a, 'o, 'i) buffer BufferSampler \<Rightarrow> bool" where
  "sampler_ok self =
     (0 < buffer_size self \<and> 0 < num_envs self
      \<and> field_ok (buffer_size self) (num_envs self) (log_p (buffer self))
      \<and> field_ok (buffer_size self) (num_envs self) (action (buffer self))
      \<and> field_ok (buffer_size self) (num_envs self) (env_obs (buffer self))
      \<and> field_ok (buffer_size self) (num_envs self) (adv (buffer self))
      \<and> field_ok (buffer_size self) (num_envs self) (reward (buffer self))
      \<and> field_ok (buffer_size self) (num_envs self) (ret (buffer self))
      \<and> field_ok (buffer_size self) (num_envs self) (value_fld (buffer self))
      \<and> field_ok (buffer_size self) (num_envs self) (done_fld (buffer self))
      \<and> field_ok (buffer_size self) (num_envs self) (ep_len (buffer self)))"

text \<open>
  The contract of \<open>jax.random\<close> that the sampler relies on: \<open>split\<close> returns as many keys
  as asked for, and \<open>randint\<close> returns an array of the length asked for whose cells lie
  in \<open>[minval, maxval)\<close> when that range is not empty.
\<close>

definition random_ok :: "('k, 'm, 'p, 'f, 'g, 'n, 'bt) collaborators \<Rightarrow> bool" where
  "random_ok jx =
     ((\<forall>k n. length (split jx k n) = n)
      \<and> (\<forall>k n lo hi. length (randint jx k n lo hi) = n)
      \<and> (\<forall>k n lo hi. lo < hi \<longrightarrow> list_all (\<lambda>v. lo \<le> v \<and> v < hi) (randint jx k n lo hi)))"

text \<open>
  The advantages of section 4.1 of the specification for a whole buffer: the recursion
  \<open>spec_gae\<close> on every column. And the normalisation of line 280 of ppo.py as a function
  of the array.
\<close>

definition gae_table ::
  "nat \<Rightarrow> real list list \<Rightarrow> bool list list \<Rightarrow> real list list \<Rightarrow> real \<Rightarrow> real \<Rightarrow> real list list" where
  "gae_table E rewards dones vals g lam =
     map (\<lambda>t. map (\<lambda>e. spec_gae (column e rewards) (column e dones) (column e vals) g lam t)
                [0..<E])
       [0..<length rewards]"

definition normalized :: "real list list \<Rightarrow> real list list" where
  "normalized xs = map (map (\<lambda>a. (a - mean xs) / (std xs + 1 / 10 ^ 8))) xs"

text \<open>
  One gradient step of the actor and of the critic on a batch, as \<open>update_step_fn\<close> takes
  them (ppo.py, lines 227 to 236 and 238 to 243): the gradient of the loss at the
  parameters of the model, applied to that model.
\<close>

definition actor_update ::
  "('k, 'm, 'p, 'f, 'g, 'n, 'bt) collaborators \<Rightarrow> PPOConfig \<Rightarrow> 'bt \<Rightarrow> 'm \<Rightarrow> 'm" where
  "actor_update jx cfg batch actor =
     apply_gradients jx actor
       (fst (grad jx (actor_loss_fn jx (clip_ratio cfg) (apply_fn jx actor) batch)
               (params jx actor)))"

definition critic_update ::
  "('k, 'm, 'p, 'f, 'g, 'n, 'bt) collaborators \<Rightarrow> 'bt \<Rightarrow> 'm \<Rightarrow> 'm" where
  "critic_update jx batch critic =
     apply_gradients jx critic
       (fst (grad jx (critic_loss_fn jx (apply_fn jx critic) batch) (params jx critic)))"

subsection \<open>Concrete collaborators for the examples\<close>

text \<open>
  The defaults of \<open>PPOConfig\<close> (config.py, lines 17 to 26), and stand-ins for the
  collaborators, small enough to trace by hand: keys are natural numbers and key \<open>k\<close> is
  split into the keys \<open>n * k + 1\<close> to \<open>n * k + n\<close>; the loop returns
  a buffer with the requested number of rows, one column per key, reward 1, value 2 and no
  termination; a model is an integer and every gradient step subtracts 1.
\<close>

definition default_cfg :: PPOConfig where
  "default_cfg =
     \<lparr>normalize_advantage = True, gamma = 99 / 100, gae_lambda = 97 / 100, clip_ratio = 2 / 10,
      ent_coef = 0, pi_coef = 1, vf_coef = 1, dapg_lambda = 1 / 10, dapg_damping = 99 / 100,
      target_kl = 1 / 100\<rparr>"

definition example_split :: "nat \<Rightarrow> nat \<Rightarrow> nat list" where
  "example_split k n = map (\<lambda>i. n * k + i + 1) [0..<n]"

definition example_randint :: "nat \<Rightarrow> nat \<Rightarrow> nat \<Rightarrow> nat \<Rightarrow> nat list" where
  "example_randint k n lo hi =
     (if hi \<le> lo then replicate n lo else map (\<lambda>i. lo + (k + i) mod (hi - lo)) [0..<n])"

definition example_rollout :: "nat list \<Rightarrow> unit \<Rightarrow> int \<Rightarrow> error + (unit, unit, int) buffer" where
  "example_rollout keys fn steps =
     Inr \<lparr>log_p = replicate (nat steps) (replicate (length keys) 0),
          action = replicate (nat steps) (replicate (length keys) ()),
          env_obs = replicate (nat steps) (replicate (length keys) ()),
          adv = replicate (nat steps) (replicate (length keys) 0),
          reward = replicate (nat steps) (replicate (length keys) 1),
          ret = replicate (nat steps) (replicate (length keys) 0),
          value_fld = replicate (nat steps) (replicate (length keys) 2),
          done_fld = replicate (nat steps) (replicate (length keys) False),
          ep_len = replicate (nat steps) (replicate (length keys) 0)\<rparr>"

definition example_jx ::
  "(nat, int, int, unit, int, unit, (unit, unit, int) batch) collaborators" where
  "example_jx =
     \<lparr>split = example_split,
      randint = example_randint,
      actor_loss_fn = (\<lambda>clip f batch p. (real_of_int p, ())),
      critic_loss_fn = (\<lambda>f batch p. (real_of_int p, ())),
      grad = (\<lambda>loss p. (1, snd (loss p))),
      params = (\<lambda>m. m),
      apply_fn = (\<lambda>m. ()),
      apply_gradients = (\<lambda>m g. m - g)\<rparr>"

definition example_buffer :: "(unit, unit, int) buffer" where
  "example_buffer =
     \<lparr>log_p = [[0, 1], [2, 3]], action = [[(), ()], [(), ()]], env_obs = [[(), ()], [(), ()]],
      adv = [[4, 5], [6, 7]], reward = [[1, 1], [1, 1], [1, 1]], ret = [[8, 9], [10, 11]],
      value_fld = [[0, 0], [0, 0], [0, 0]], done_fld = [[False, False], [False, True]],
      ep_len = [[1, 1], [2, 2]]\<rparr>"

subsection \<open>Properties of the advantage estimator\<close>

lemma elementwise_same_length:
  "length xs = length ys \<Longrightarrow> elementwise f xs ys = Inr (map2 f xs ys)"
  by (simp add: elementwise_def)

lemma scan_rev_upt:
  assumes step: "\<And>t. t < k \<Longrightarrow> f (G (Suc t)) t = Inr (G t, G t)"
  shows "scan f (G k) (rev [0..<k]) = Inr (G 0, map G (rev [0..<k]))"
  using step
proof (induction k)
  case 0
  show ?case by simp
next
  case (Suc k)
  have here: "f (G (Suc k)) k = Inr (G k, G k)"
    using Suc.prems by simp
  have rest: "scan f (G k) (rev [0..<k]) = Inr (G 0, map G (rev [0..<k]))"
    using Suc.IH Suc.prems by simp
  show ?case
    by (simp add: here rest)
qed

lemma gae_advantages_eq_spec:
  fixes gamma :: real
  assumes d: "length dones = length rewards"
    and v: "length values = length rewards + 1"
  shows "gae_advantages rewards dones values gamma lam =
           Inr (map (spec_gae rewards dones values gamma lam) [0..<length rewards])"
proof -
  let ?N = "length rewards"
  let ?nd = "map (\<lambda>d. if d then 0 else (1::real)) dones"
  let ?gv = "map2 (*) (map ((*) gamma) (drop 1 values)) ?nd"
  let ?vd = "map2 (-) ?gv (butlast values)"
  let ?deltas = "map2 (+) rewards ?vd"
  let ?G = "spec_gae rewards dones values gamma lam"
  let ?body = "\<lambda>gae t. Inr (?deltas ! t + gamma * lam * ?nd ! t * gae,
                             ?deltas ! t + gamma * lam * ?nd ! t * gae) :: error + real \<times> real"
  have e1: "elementwise (*) (map ((*) gamma) (drop 1 values)) ?nd = Inr ?gv"
    using d v by (simp add: elementwise_same_length)
  have e2: "elementwise (-) ?gv (butlast values) = Inr ?vd"
    using d v by (simp add: elementwise_same_length)
  have e3: "elementwise (+) rewards ?vd = Inr ?deltas"
    using d v by (simp add: elementwise_same_length)
  have nd: "?nd ! t = spec_not_done dones t" if "t < ?N" for t
    using that d by (simp add: spec_not_done_def)
  have delta: "?deltas ! t = spec_delta rewards dones values gamma t" if "t < ?N" for t
  proof -
    have "butlast values ! t = values ! t"
      using that v by (simp add: nth_butlast)
    moreover have "drop 1 values ! t = values ! (t + 1)"
      using that v by simp
    ultimately show ?thesis
      using that d v by (simp add: spec_delta_def nd [symmetric])
  qed
  have step: "?body (?G (Suc t)) t = Inr (?G t, ?G t)" if "t < ?N" for t
  proof -
    have "?G t = spec_delta rewards dones values gamma t
                 + gamma * lam * spec_not_done dones t * ?G (Suc t)"
      using that by (subst spec_gae.simps) simp
    then show ?thesis
      by (simp only: nd [OF that] delta [OF that])
  qed
  have last0: "?G ?N = 0"
    by (subst spec_gae.simps) simp
  have "scan ?body (?G ?N) (rev [0..<?N]) = Inr (?G 0, map ?G (rev [0..<?N]))"
    by (rule scan_rev_upt) (rule step)
  then have sc: "scan ?body 0 (rev [0..<?N]) = Inr (?G 0, map ?G (rev [0..<?N]))"
    by (simp only: last0)
  show ?thesis
    unfolding gae_advantages_def Let_def e1 e2 e3 sc sum.case
    by (simp add: rev_map)
qed

text \<open>
  Claim C2. For a trajectory of one environment with \<open>N\<close> rewards, \<open>N\<close> done flags and
  \<open>N + 1\<close> values, and for every \<open>gamma\<close> and \<open>lambda\<close>, \<open>gae_advantages\<close> returns the \<open>N\<close>
  advantages of the backward recursion
  \<open>gae[t] = delta[t] + gamma * lambda * (1 - dones[t]) * gae[t+1]\<close> with \<open>gae[N] = 0\<close> and
  \<open>delta[t] = rewards[t] + gamma * values[t+1] * (1 - dones[t]) - values[t]\<close>.
\<close>

theorem gae_advantages_backward_recursion:
  fixes gamma :: real
  assumes "length dones = length rewards"
    and "length values = length rewards + 1"
  shows "gae_advantages rewards dones values gamma lam =
           Inr (map (spec_gae rewards dones values gamma lam) [0..<length rewards])"
  using assms by (rule gae_advantages_eq_spec)

theorem gae_advantages_backward_recursion_witness:
  "length [False, False, False] = length [1, 1, 1 :: real]
   \<and> length [0, 0, 0, 0 :: real] = length [1, 1, 1 :: real] + 1
   \<and> gae_advantages [1, 1, 1 :: real] [False, False, False] [0, 0, 0, 0] 1 1 = Inr [3, 2, 1]"
proof -
  have d: "length [False, False, False] = length [1, 1, 1 :: real]"
    by simp
  have v: "length [0, 0, 0, 0 :: real] = length [1, 1, 1 :: real] + 1"
    by simp
  have upt3: "[0..<length [1, 1, 1 :: real]] = [0, Suc 0, Suc (Suc 0)]"
    by (simp add: upt_rec)
  have "gae_advantages [1, 1, 1 :: real] [False, False, False] [0, 0, 0, 0] 1 1 = Inr [3, 2, 1]"
    unfolding gae_advantages_backward_recursion [OF d v, of 1 1] upt3
    by (simp add: spec_gae.simps spec_delta_def spec_not_done_def)
  with d v show ?thesis by blast
qed

lemma gae_advantages_eq_carry:
  fixes rewards vals :: "'a::{zero, one, plus, minus, times} list" and g lam :: 'a
  assumes d: "length dones = length rewards"
    and v: "length vals = length rewards + 1"
  shows "gae_advantages rewards dones vals g lam =
           Inr (map (gae_carry rewards dones vals g lam) [0..<length rewards])"
proof -
  let ?N = "length rewards"
  let ?nd = "map (\<lambda>d. if d then 0 else (1::'a)) dones"
  let ?gv = "map2 (*) (map ((*) g) (drop 1 vals)) ?nd"
  let ?vd = "map2 (-) ?gv (butlast vals)"
  let ?deltas = "map2 (+) rewards ?vd"
  let ?G = "gae_carry rewards dones vals g lam"
  let ?body = "\<lambda>gae t. Inr (?deltas ! t + g * lam * ?nd ! t * gae,
                             ?deltas ! t + g * lam * ?nd ! t * gae) :: error + 'a \<times> 'a"
  have e1: "elementwise (*) (map ((*) g) (drop 1 vals)) ?nd = Inr ?gv"
    using d v by (simp add: elementwise_same_length)
  have e2: "elementwise (-) ?gv (butlast vals) = Inr ?vd"
    using d v by (simp add: elementwise_same_length)
  have e3: "elementwise (+) rewards ?vd = Inr ?deltas"
    using d v by (simp add: elementwise_same_length)
  have nd: "?nd ! t = (if dones ! t then 0 else 1)" if "t < ?N" for t
    using that d by simp
  have delta: "?deltas ! t = rewards ! t + (g * vals ! (t + 1) * (if dones ! t then 0 else 1) - vals ! t)"
    if "t < ?N" for t
  proof -
    have "butlast vals ! t = vals ! t"
      using that v by (simp add: nth_butlast)
    moreover have "drop 1 vals ! t = vals ! (t + 1)"
      using that v by simp
    ultimately show ?thesis
      using that d v by simp
  qed
  have step: "?body (?G (Suc t)) t = Inr (?G t, ?G t)" if "t < ?N" for t
  proof -
    have "?G t = (rewards ! t + (g * vals ! (t + 1) * (if dones ! t then 0 else 1) - vals ! t))
                 + g * lam * (if dones ! t then 0 else 1) * ?G (Suc t)"
      using that by (subst gae_carry.simps) simp
    then show ?thesis
      by (simp only: nd [OF that] delta [OF that])
  qed
  have last0: "?G ?N = 0"
    by (subst gae_carry.simps) simp
  have "scan ?body (?G ?N) (rev [0..<?N]) = Inr (?G 0, map ?G (rev [0..<?N]))"
    by (rule scan_rev_upt) (rule step)
  then have sc: "scan ?body 0 (rev [0..<?N]) = Inr (?G 0, map ?G (rev [0..<?N]))"
    by (simp only: last0)
  show ?thesis
    unfolding gae_advantages_def Let_def e1 e2 e3 sc sum.case
    by (simp add: rev_map)
qed

lemma fl_zero: "fl 0 = Fin 0"
  by (simp add: fl_def overflow_threshold_def)

lemma ieee_mask:
  "is_finite x \<Longrightarrow> x * 0 = (0 :: ieee)"
  "is_finite x \<Longrightarrow> 0 * x = (0 :: ieee)"
  by (cases x; simp add: times_ieee_def zero_ieee_def fl_zero)+

text \<open>
  Claim C3, as stated: if \<open>dones[t]\<close> is true, \<open>advantages[t]\<close> is the same for any two inputs
  that agree on \<open>rewards[0..t]\<close>, \<open>dones[0..t]\<close> and \<open>values[0..t]\<close>. The source masks what
  follows a terminal step by a product with \<open>not_dones[t]\<close> (ppo.py, lines 29 and 33), and
  the product of 0 and an infinity is NaN. With \<open>gamma = lambda = 1\<close>, rewards \<open>[1, 3e38]\<close>,
  values \<open>[2, 0, 3e38]\<close> and dones \<open>[True, False]\<close>, the advantage of step 1 overflows to
  infinity and \<open>advantages[0]\<close> is NaN; rewards \<open>[1, 5]\<close> and values \<open>[2, 7, 9]\<close> agree with
  them at step 0 and give \<open>advantages[0] = -1\<close>.
\<close>

theorem gae_advantages_done_boundary_counterexample:
  "gae_advantages [Fin 1, Fin 5] [True, False] [Fin 2, Fin 7, Fin 9] (Fin 1) (Fin 1)
     = Inr [Fin (- 1), Fin 7]
   \<and> gae_advantages [Fin 1, Fin (3 * 10 ^ 38)] [True, False] [Fin 2, Fin 0, Fin (3 * 10 ^ 38)]
       (Fin 1) (Fin 1)
     = Inr [NaN, PInf]
   \<and> take (Suc 0) [Fin 1, Fin 5] = take (Suc 0) [Fin 1, Fin (3 * 10 ^ 38)]
   \<and> take (Suc 0) [True, False] = take (Suc 0) [True, False]
   \<and> take (Suc 0) [Fin 2, Fin 7, Fin 9] = take (Suc 0) [Fin 2, Fin 0, Fin (3 * 10 ^ 38)]
   \<and> [True, False] ! 0
   \<and> [Fin (- 1), Fin 7] ! 0 \<noteq> [NaN, PInf] ! 0"
  by code_simp

text \<open>
  Claim C3, amended: if \<open>dones[t]\<close> is true and the operands of the mask are finite, that is
  \<open>gamma * values[t+1]\<close>, \<open>gamma * lambda\<close> and, when \<open>t\<close> is not the last step,
  \<open>advantages[t+1]\<close> are neither infinite nor NaN, then \<open>advantages[t]\<close> does not depend on
  \<open>rewards[t+1:]\<close> or \<open>values[t+1:]\<close>: any two such inputs that agree on \<open>rewards[0..t]\<close>,
  \<open>dones[0..t]\<close> and \<open>values[0..t]\<close> yield the same \<open>advantages[t]\<close>.
\<close>

theorem gae_advantages_done_boundary_finite:
  fixes rewards1 rewards2 vals1 vals2 :: "ieee list" and g lam :: ieee
  assumes "length dones1 = length rewards1" and "length vals1 = length rewards1 + 1"
    and "length dones2 = length rewards2" and "length vals2 = length rewards2 + 1"
    and "t < length rewards1" and "t < length rewards2"
    and "take (Suc t) rewards1 = take (Suc t) rewards2"
    and "take (Suc t) dones1 = take (Suc t) dones2"
    and "take (Suc t) vals1 = take (Suc t) vals2"
    and "dones1 ! t"
    and "gae_advantages rewards1 dones1 vals1 g lam = Inr advantages1"
    and "gae_advantages rewards2 dones2 vals2 g lam = Inr advantages2"
    and "is_finite (g * vals1 ! (t + 1))" and "is_finite (g * vals2 ! (t + 1))"
    and "is_finite (g * lam)"
    and "Suc t < length rewards1 \<longrightarrow> is_finite (advantages1 ! Suc t)"
    and "Suc t < length rewards2 \<longrightarrow> is_finite (advantages2 ! Suc t)"
  shows "advantages1 ! t = advantages2 ! t"
proof -
  have at_done: "advs ! t = (rs ! t + (0 - vs ! t)) + 0"
    if shape: "length ds = length rs" "length vs = length rs + 1"
      and t: "t < length rs" and flag: "ds ! t"
      and run: "gae_advantages rs ds vs g lam = Inr advs"
      and fv: "is_finite (g * vs ! (t + 1))"
      and fnext: "Suc t < length rs \<longrightarrow> is_finite (advs ! Suc t)"
    for rs vs advs :: "ieee list" and ds :: "bool list"
  proof -
    have advs: "advs = map (gae_carry rs ds vs g lam) [0..<length rs]"
      using gae_advantages_eq_carry [OF shape, of g lam] run by simp
    have next_finite: "is_finite (gae_carry rs ds vs g lam (Suc t))"
    proof (cases "Suc t < length rs")
      case True
      then show ?thesis
        using fnext by (simp add: advs)
    next
      case False
      then have "gae_carry rs ds vs g lam (Suc t) = 0"
        by (subst gae_carry.simps) simp
      then show ?thesis
        by (simp add: zero_ieee_def)
    qed
    have "gae_carry rs ds vs g lam t =
        (rs ! t + (g * vs ! (t + 1) * 0 - vs ! t)) + g * lam * 0 * gae_carry rs ds vs g lam (Suc t)"
      using t flag by (subst gae_carry.simps) simp
    also have "g * vs ! (t + 1) * 0 = 0"
      by (rule ieee_mask(1) [OF fv])
    also have "g * lam * 0 = 0"
      by (rule ieee_mask(1) [OF assms(15)])
    also have "0 * gae_carry rs ds vs g lam (Suc t) = 0"
      by (rule ieee_mask(2) [OF next_finite])
    finally show ?thesis
      using t by (simp add: advs)
  qed
  have same: "xs ! t = ys ! t" if "take (Suc t) xs = take (Suc t) ys" for xs ys :: "'b list"
  proof -
    have "take (Suc t) xs ! t = take (Suc t) ys ! t"
      using that by simp
    then show ?thesis by simp
  qed
  have d2: "dones2 ! t"
    using same [OF assms(8)] assms(10) by simp
  have "advantages1 ! t = (rewards1 ! t + (0 - vals1 ! t)) + 0"
    by (rule at_done [OF assms(1,2,5,10,11,13,16)])
  moreover have "advantages2 ! t = (rewards2 ! t + (0 - vals2 ! t)) + 0"
    by (rule at_done [OF assms(3,4,6) d2 assms(12,14,17)])
  ultimately show ?thesis
    using same [OF assms(7)] same [OF assms(9)] by simp
qed

theorem gae_advantages_done_boundary_finite_witness:
  "gae_advantages [Fin 1, Fin 5] [True, False] [Fin 2, Fin 7, Fin 9] (Fin (1 / 2)) (Fin (1 / 2))
     = Inr [Fin (- 1), Fin (5 / 2)]
   \<and> gae_advantages [Fin 1, Fin 100] [True, True] [Fin 2, Fin (- 3), Fin 50] (Fin (1 / 2))
       (Fin (1 / 2))
     = Inr [Fin (- 1), Fin 103]
   \<and> [Fin (- 1), Fin (5 / 2)] ! 0 = [Fin (- 1), Fin 103] ! 0"
proof -
  have g1: "gae_advantages [Fin 1, Fin 5] [True, False] [Fin 2, Fin 7, Fin 9] (Fin (1 / 2))
      (Fin (1 / 2)) = Inr [Fin (- 1), Fin (5 / 2)]"
    by code_simp
  have g2: "gae_advantages [Fin 1, Fin 100] [True, True] [Fin 2, Fin (- 3), Fin 50] (Fin (1 / 2))
      (Fin (1 / 2)) = Inr [Fin (- 1), Fin 103]"
    by code_simp
  have f1: "is_finite (Fin (1 / 2) * [Fin 2, Fin 7, Fin 9] ! (0 + 1))"
    by code_simp
  have f2: "is_finite (Fin (1 / 2) * [Fin 2, Fin (- 3), Fin 50] ! (0 + 1))"
    by code_simp
  have f3: "is_finite (Fin (1 / 2) * Fin (1 / 2))"
    by code_simp
  have "[Fin (- 1), Fin (5 / 2)] ! 0 = [Fin (- 1), Fin 103] ! 0"
    by (rule gae_advantages_done_boundary_finite [OF _ _ _ _ _ _ _ _ _ _ g1 g2 f1 f2 f3]) simp_all
  with g1 g2 show ?thesis by blast
qed

subsection \<open>Properties of the buffer assembly\<close>

lemma collect_results_map_Inr:
  "collect_results (map (\<lambda>x. Inr (f x)) xs) = Inr (map f xs)"
  by (induction xs) simp_all

lemma length_column [simp]: "length (column e xs) = length xs"
  by (simp add: column_def)

lemma has_shape_butlast: "has_shape (Suc T) E xs \<Longrightarrow> has_shape T E (butlast xs)"
  by (auto simp: has_shape_def list_all_iff dest: in_set_butlastD)

lemma gae_advantages_vmap_shaped:
  fixes g :: real
  assumes r: "has_shape N E rewards" and d: "has_shape N E dones" and v: "has_shape (Suc N) E vals"
  shows "gae_advantages_vmap E rewards dones vals g lam = Inr (gae_table E rewards dones vals g lam)"
proof -
  have col: "gae_advantages (column e rewards) (column e dones) (column e vals) g lam =
      Inr (map (spec_gae (column e rewards) (column e dones) (column e vals) g lam) [0..<N])" for e
    using gae_advantages_eq_spec [of "column e dones" "column e rewards" "column e vals" g lam] r d v
    by (simp add: has_shape_def)
  have ok: "list_all (\<lambda>row. length row = E) rewards \<and> list_all (\<lambda>row. length row = E) dones
      \<and> list_all (\<lambda>row. length row = E) vals"
    using r d v by (simp add: has_shape_def)
  have N: "length rewards = N" using r by (simp add: has_shape_def)
  show ?thesis
    unfolding gae_advantages_vmap_def col
    by (simp add: ok collect_results_map_Inr gae_table_def N o_def)
qed

lemma has_shape_gae_table: "has_shape (length rewards) E (gae_table E rewards dones vals g lam)"
  by (simp add: has_shape_def gae_table_def list_all_iff)


lemma has_shape_normalized: "has_shape T E xs \<Longrightarrow> has_shape T E (normalized xs)"
  by (simp add: has_shape_def normalized_def list_all_iff)

lemma collect_results_rows:
  assumes "list_all (\<lambda>row. length row = length v) A"
  shows "collect_results (map (\<lambda>row. elementwise f row v) A) = Inr (map (\<lambda>row. map2 f row v) A)"
  using assms by (induction A) (simp_all add: elementwise_def)

lemma collect_buffer_shaped:
  fixes raw :: "('a, 'o, 'i) buffer" and cfg :: PPOConfig
  assumes keys: "sp rng_key (E + 1) = k # ks"
    and roll: "rollout ks fn (int N + 1) = Inr raw"
    and r: "has_shape (Suc N) E (reward raw)"
    and d: "has_shape (Suc N) E (done_fld raw)"
    and v: "has_shape (Suc N) E (value_fld raw)"
  defines "A0 \<equiv> gae_table E (butlast (reward raw)) (butlast (done_fld raw)) (value_fld raw)
                   (gamma cfg) (gae_lambda cfg)"
  defines "A \<equiv> (if normalize_advantage cfg then normalized A0 else A0)"
  shows "collect_buffer cfg sp rollout rng_key (int N) E fn =
           Inr (raw\<lparr>adv := A,
                     ret := map (\<lambda>row. map2 (+) row (last (value_fld raw))) A,
                     log_p := butlast (log_p raw),
                     action := butlast (action raw),
                     env_obs := butlast (env_obs raw),
                     done_fld := butlast (done_fld raw),
                     ep_len := butlast (ep_len raw)\<rparr>, ())"
proof -
  have g: "gae_advantages_vmap E (butlast (reward raw)) (butlast (done_fld raw)) (value_fld raw)
             (gamma cfg) (gae_lambda cfg) = Inr A0"
    unfolding A0_def
    by (rule gae_advantages_vmap_shaped [OF has_shape_butlast [OF r] has_shape_butlast [OF d] v])
  have ne: "value_fld raw \<noteq> []"
    using v by (auto simp: has_shape_def)
  have lastE: "length (last (value_fld raw)) = E"
    using v ne last_in_set [OF ne] by (simp add: has_shape_def list_all_iff)
  have "has_shape (length (butlast (reward raw))) E A0"
    unfolding A0_def by (rule has_shape_gae_table)
  then have "has_shape (length (butlast (reward raw))) E A"
    unfolding A_def by (simp add: has_shape_normalized)
  then have rows: "list_all (\<lambda>row. length row = length (last (value_fld raw))) A"
    by (simp add: has_shape_def lastE)
  have rets: "collect_results (map (\<lambda>row. elementwise (+) row (last (value_fld raw))) A) =
      Inr (map (\<lambda>row. map2 (+) row (last (value_fld raw))) A)"
    by (rule collect_results_rows [OF rows])
  have A_eq: "(if normalize_advantage cfg
             then map (map (\<lambda>a. (a - mean A0) / (std A0 + 1 / 10 ^ 8))) A0
             else A0) = A"
    by (simp add: A_def normalized_def)
  show ?thesis
    unfolding collect_buffer_def keys list.case roll sum.case g Let_def A_eq rets
    using ne by simp
qed









lemmas example_simps =
  collect_buffer_def example_split_def example_rollout_def default_cfg_def
  gae_advantages_vmap_def gae_advantages_def elementwise_def column_def mean_def std_def
  Let_def upt_rec [of 0] upt_rec [of 1] upt_rec [of 2] upt_rec [of "Suc 0"]
  upt_rec [of "Suc (Suc 0)"] eval_nat_numeral

lemma nth_gae_table_shape:
  "length (gae_table E rewards dones vals g lam) = length rewards"
  "t < length rewards \<Longrightarrow> length (gae_table E rewards dones vals g lam ! t) = E"
  by (simp_all add: gae_table_def)

lemma normalized_shape:
  "length (normalized xs) = length xs"
  "t < length xs \<Longrightarrow> length (normalized xs ! t) = length (xs ! t)"
  by (simp_all add: normalized_def)

text \<open>
  Claim C1. The return targets of an assembled buffer satisfy
  \<open>returns[t, e] = advantages[t, e] + values[N, e]\<close> for all \<open>t\<close> and \<open>e\<close>, where
  \<open>values[N, e]\<close> is the value of the last row of the rollout and \<open>advantages\<close> are the
  advantages stored in the buffer: the normalised ones when normalisation is switched on,
  otherwise those of the recursion.
\<close>

theorem collect_buffer_return_identity:
  fixes raw :: "('a, 'o, 'i) buffer" and cfg :: PPOConfig
  assumes "sp rng_key (E + 1) = k # ks"
    and "rollout ks fn (int N + 1) = Inr raw"
    and "has_shape (Suc N) E (reward raw)"
    and "has_shape (Suc N) E (done_fld raw)"
    and "has_shape (Suc N) E (value_fld raw)"
  shows "\<exists>B. collect_buffer cfg sp rollout rng_key (int N) E fn = Inr (B, ())
           \<and> adv B =
               (let A0 = gae_table E (butlast (reward raw)) (butlast (done_fld raw))
                           (value_fld raw) (gamma cfg) (gae_lambda cfg)
                in if normalize_advantage cfg then normalized A0 else A0)
           \<and> value_fld B = value_fld raw
           \<and> (\<forall>t<N. \<forall>e<E. ret B ! t ! e = adv B ! t ! e + value_fld B ! N ! e)"
proof -
  let ?G = "gae_table E (butlast (reward raw)) (butlast (done_fld raw)) (value_fld raw)
               (gamma cfg) (gae_lambda cfg)"
  let ?A = "if normalize_advantage cfg then normalized ?G else ?G"
  let ?B = "raw\<lparr>adv := ?A,
                  ret := map (\<lambda>row. map2 (+) row (last (value_fld raw))) ?A,
                  log_p := butlast (log_p raw),
                  action := butlast (action raw),
                  env_obs := butlast (env_obs raw),
                  done_fld := butlast (done_fld raw),
                  ep_len := butlast (ep_len raw)\<rparr>"
  have run: "collect_buffer cfg sp rollout rng_key (int N) E fn = Inr (?B, ())"
    by (rule collect_buffer_shaped) (rule assms)+
  have lenr: "length (butlast (reward raw)) = N"
    using assms(3) by (simp add: has_shape_def)
  have lenA: "length ?A = N"
    using lenr by (simp add: nth_gae_table_shape normalized_shape)
  have rowA: "length (?A ! t) = E" if "t < N" for t
    using that lenr by (simp add: nth_gae_table_shape normalized_shape)
  have v: "length (value_fld raw) = Suc N" "list_all (\<lambda>row. length row = E) (value_fld raw)"
    using assms(5) by (simp_all add: has_shape_def)
  have lastv: "last (value_fld raw) = value_fld raw ! N"
    using v(1) by (cases "value_fld raw" rule: rev_cases) (simp_all add: nth_append)
  have lenlast: "length (value_fld raw ! N) = E"
    using v by (simp add: list_all_length)
  have ident: "ret ?B ! t ! e = adv ?B ! t ! e + value_fld ?B ! N ! e" if "t < N" and "e < E" for t e
  proof -
    have "ret ?B ! t = map2 (+) (?A ! t) (value_fld raw ! N)"
      using that(1) lenA by (simp add: lastv)
    then show ?thesis
      using that rowA [OF that(1)] lenlast by simp
  qed
  have "adv ?B = (let A0 = ?G in if normalize_advantage cfg then normalized A0 else A0)"
    by (simp add: Let_def)
  moreover have "value_fld ?B = value_fld raw"
    by simp
  ultimately show ?thesis
    using run ident by blast
qed

theorem collect_buffer_return_identity_witness:
  "collect_buffer (default_cfg\<lparr>normalize_advantage := False\<rparr>) example_split example_rollout 0
       (int 1) 2 () =
     Inr (\<lparr>log_p = [[0, 0]], action = [[(), ()]], env_obs = [[(), ()]],
           adv = [[49 / 50, 49 / 50]], reward = [[1, 1], [1, 1]],
           ret = [[149 / 50, 149 / 50]], value_fld = [[2, 2], [2, 2]],
           done_fld = [[False, False]], ep_len = [[0, 0]]\<rparr>, ())
   \<and> [[149 / 50, 149 / 50 :: real]] ! 0 ! 1 = [[49 / 50, 49 / 50]] ! 0 ! 1 + [[2, 2], [2, 2]] ! 1 ! 1"
proof -
  let ?cfg = "default_cfg\<lparr>normalize_advantage := False\<rparr>"
  let ?raw = "\<lparr>log_p = [[0, 0], [0, 0]], action = [[(), ()], [(), ()]],
               env_obs = [[(), ()], [(), ()]], adv = [[0, 0], [0, 0]],
               reward = [[1, 1], [1, 1]], ret = [[0, 0], [0, 0]],
               value_fld = [[2, 2], [2, 2]], done_fld = [[False, False], [False, False]],
               ep_len = [[0, 0], [0, 0]]\<rparr> :: (unit, unit, int) buffer"
  let ?B = "\<lparr>log_p = [[0, 0]], action = [[(), ()]], env_obs = [[(), ()]],
             adv = [[49 / 50, 49 / 50]], reward = [[1, 1], [1, 1]],
             ret = [[149 / 50, 149 / 50]], value_fld = [[2, 2], [2, 2]],
             done_fld = [[False, False]], ep_len = [[0, 0]]\<rparr> :: (unit, unit, int) buffer"
  have keys: "example_split 0 (2 + 1) = 1 # [2, 3]"
    by (simp add: example_simps)
  have roll: "example_rollout [2, 3] () (int 1 + 1) = Inr ?raw"
    by (simp add: example_simps)
  have shapes: "has_shape (Suc 1) 2 (reward ?raw)" "has_shape (Suc 1) 2 (done_fld ?raw)"
    "has_shape (Suc 1) 2 (value_fld ?raw)"
    by (simp_all add: has_shape_def)
  have run: "collect_buffer ?cfg example_split example_rollout 0 (int 1) 2 () = Inr (?B, ())"
    by (simp add: example_simps)
  obtain B where B: "collect_buffer ?cfg example_split example_rollout 0 (int 1) 2 () = Inr (B, ())"
    and ident: "\<forall>t<1. \<forall>e<2. ret B ! t ! e = adv B ! t ! e + value_fld B ! 1 ! e"
    using collect_buffer_return_identity
      [where sp = example_split and rollout = example_rollout and cfg = ?cfg and rng_key = 0
         and fn = "()" and E = 2 and N = 1, OF keys roll shapes]
    by blast
  have "B = ?B"
    using B run by simp
  with ident have "ret ?B ! 0 ! 1 = adv ?B ! 0 ! 1 + value_fld ?B ! 1 ! 1"
    by simp
  then show ?thesis
    using run by simp
qed

text \<open>
  Claim C4, as stated: after \<open>collect_buffer\<close> every field of the returned buffer except
  \<open>value\<close> has \<open>rollout_steps_per_env\<close> rows. The field \<open>reward\<close> is not among the fields that
  \<open>buffer.replace\<close> receives (ppo.py, lines 282 to 290): with one step per environment the
  returned \<open>reward\<close> has two rows.
\<close>

theorem collect_buffer_reward_rows_counterexample:
  "collect_buffer default_cfg example_split example_rollout 0 1 1 () =
     Inr (\<lparr>log_p = [[0]], action = [[()]], env_obs = [[()]], adv = [[0]],
           reward = [[1], [1]], ret = [[2]], value_fld = [[2], [2]], done_fld = [[False]],
           ep_len = [[0]]\<rparr>, ())
   \<and> length (reward \<lparr>log_p = [[0 :: real]], action = [[()]], env_obs = [[()]], adv = [[0]],
           reward = [[1], [1]], ret = [[2]], value_fld = [[2], [2]], done_fld = [[False]],
           ep_len = [[0 :: int]]\<rparr>) \<noteq> 1"
  by (simp add: example_simps)

text \<open>
  Claim C4, amended: for every collected rollout of \<open>rollout_steps_per_env + 1\<close> steps, the
  fields \<open>log_p\<close>, \<open>action\<close>, \<open>env_obs\<close>, \<open>adv\<close>, \<open>ret\<close>, \<open>done\<close> and \<open>ep_len\<close> of the returned
  buffer have \<open>rollout_steps_per_env\<close> rows; \<open>reward\<close> and \<open>value\<close> keep
  \<open>rollout_steps_per_env + 1\<close> rows.
\<close>

theorem collect_buffer_trimmed_rows:
  fixes raw :: "('a, 'o, 'i) buffer" and cfg :: PPOConfig
  assumes "sp rng_key (E + 1) = k # ks"
    and "rollout ks fn (int N + 1) = Inr raw"
    and "has_shape (Suc N) E (reward raw)"
    and "has_shape (Suc N) E (done_fld raw)"
    and "has_shape (Suc N) E (value_fld raw)"
    and "length (log_p raw) = Suc N"
    and "length (action raw) = Suc N"
    and "length (env_obs raw) = Suc N"
    and "length (ep_len raw) = Suc N"
  shows "\<exists>B. collect_buffer cfg sp rollout rng_key (int N) E fn = Inr (B, ())
           \<and> length (log_p B) = N \<and> length (action B) = N \<and> length (env_obs B) = N
           \<and> length (adv B) = N \<and> length (ret B) = N \<and> length (done_fld B) = N
           \<and> length (ep_len B) = N
           \<and> length (reward B) = N + 1 \<and> length (value_fld B) = N + 1"
proof -
  let ?G = "gae_table E (butlast (reward raw)) (butlast (done_fld raw)) (value_fld raw)
              (gamma cfg) (gae_lambda cfg)"
  let ?A = "if normalize_advantage cfg then normalized ?G else ?G"
  let ?B = "raw\<lparr>adv := ?A,
                  ret := map (\<lambda>row. map2 (+) row (last (value_fld raw))) ?A,
                  log_p := butlast (log_p raw),
                  action := butlast (action raw),
                  env_obs := butlast (env_obs raw),
                  done_fld := butlast (done_fld raw),
                  ep_len := butlast (ep_len raw)\<rparr>"
  have run: "collect_buffer cfg sp rollout rng_key (int N) E fn = Inr (?B, ())"
    by (rule collect_buffer_shaped) (rule assms)+
  have r: "length (reward raw) = Suc N" and d: "length (done_fld raw) = Suc N"
    and v: "length (value_fld raw) = Suc N"
    using assms(3-5) by (simp_all add: has_shape_def)
  have lenA: "length ?A = N"
    using r by (simp add: nth_gae_table_shape normalized_shape)
  have "length (log_p ?B) = N \<and> length (action ?B) = N \<and> length (env_obs ?B) = N
      \<and> length (adv ?B) = N \<and> length (ret ?B) = N \<and> length (done_fld ?B) = N
      \<and> length (ep_len ?B) = N \<and> length (reward ?B) = N + 1 \<and> length (value_fld ?B) = N + 1"
    using lenA r d v assms(6-9) by simp
  with run show ?thesis
    by blast
qed

theorem collect_buffer_trimmed_rows_witness:
  "collect_buffer default_cfg example_split example_rollout 0 (int 1) 1 () =
     Inr (\<lparr>log_p = [[0]], action = [[()]], env_obs = [[()]], adv = [[0]],
           reward = [[1], [1]], ret = [[2]], value_fld = [[2], [2]], done_fld = [[False]],
           ep_len = [[0]]\<rparr>, ())
   \<and> length [[0 :: real]] = 1 \<and> length [[1], [1 :: real]] = 1 + 1"
proof -
  let ?raw = "\<lparr>log_p = [[0], [0]], action = [[()], [()]], env_obs = [[()], [()]],
               adv = [[0], [0]], reward = [[1], [1]], ret = [[0], [0]],
               value_fld = [[2], [2]], done_fld = [[False], [False]],
               ep_len = [[0], [0]]\<rparr> :: (unit, unit, int) buffer"
  let ?B = "\<lparr>log_p = [[0]], action = [[()]], env_obs = [[()]], adv = [[0]],
             reward = [[1], [1]], ret = [[2]], value_fld = [[2], [2]], done_fld = [[False]],
             ep_len = [[0]]\<rparr> :: (unit, unit, int) buffer"
  have keys: "example_split 0 (1 + 1) = 1 # [2]"
    by (simp add: example_simps)
  have roll: "example_rollout [2] () (int 1 + 1) = Inr ?raw"
    by (simp add: example_simps)
  have shapes: "has_shape (Suc 1) 1 (reward ?raw)" "has_shape (Suc 1) 1 (done_fld ?raw)"
    "has_shape (Suc 1) 1 (value_fld ?raw)"
    by (simp_all add: has_shape_def)
  have rows: "length (log_p ?raw) = Suc 1" "length (action ?raw) = Suc 1"
    "length (env_obs ?raw) = Suc 1" "length (ep_len ?raw) = Suc 1"
    by simp_all
  have run: "collect_buffer default_cfg example_split example_rollout 0 (int 1) 1 () = Inr (?B, ())"
    by (simp add: example_simps)
  obtain B where B: "collect_buffer default_cfg example_split example_rollout 0 (int 1) 1 () = Inr (B, ())"
    and len: "length (adv B) = 1" "length (reward B) = 1 + 1"
    using collect_buffer_trimmed_rows
      [where sp = example_split and rollout = example_rollout and cfg = default_cfg
         and rng_key = 0 and fn = "()" and E = 1 and N = 1, OF keys roll shapes rows]
    by blast
  have "B = ?B"
    using B run by simp
  with len have "length [[0 :: real]] = 1 \<and> length [[1], [1 :: real]] = 1 + 1"
    by simp
  then show ?thesis
    using run by simp
qed







subsection \<open>Properties of the sampler\<close>

lemma gather_in_range:
  assumes x: "field_ok T E x" and T: "0 < T" and E: "0 < E"
    and len: "length ts = length es"
    and ts: "list_all (\<lambda>t. t < T) ts" and es: "list_all (\<lambda>e. e < E) es"
  shows "gather x ts es = Inr (map2 (\<lambda>t e. x ! t ! e) ts es)"
proof -
  have rows: "\<And>row. row \<in> set x \<Longrightarrow> length row = E" and Tx: "T \<le> length x"
    using x by (simp_all add: field_ok_def list_all_iff)
  have ne: "x \<noteq> []"
    using Tx T by auto
  have no_empty: "\<not> list_ex (\<lambda>row. row = []) x"
    using rows E by (auto simp: list_ex_iff)
  have cell: "(let row = x ! min t (length x - 1) in row ! min e (length row - 1)) = x ! t ! e"
    if "(t, e) \<in> set (zip ts es)" for t e
  proof -
    have t: "t < T" and e: "e < E"
      using that ts es by (auto simp: list_all_iff dest: set_zip_leftD set_zip_rightD)
    have "min t (length x - 1) = t"
      using t Tx by simp
    moreover have "length (x ! t) = E"
      using t Tx by (simp add: rows)
    ultimately show ?thesis
      using e by (simp add: Let_def)
  qed
  have "map2 (\<lambda>t e. let row = x ! min t (length x - 1) in row ! min e (length row - 1)) ts es
      = map2 (\<lambda>t e. x ! t ! e) ts es"
    using cell by (auto intro!: map_cong)
  then show ?thesis
    using len ne no_empty by (simp add: gather_def)
qed

lemma split_two:
  assumes "random_ok jx"
  shows "split jx k 2 = [split jx k 2 ! 0, split jx k 2 ! 1]"
proof -
  have "length (split jx k 2) = 2"
    using assms by (simp add: random_ok_def)
  then show ?thesis
    by (cases "split jx k 2" rule: list.exhaust [case_names Nil Cons])
      (auto simp: length_Suc_conv)
qed

lemma randint_in_range:
  assumes "random_ok jx" and "0 < hi"
  shows "length (randint jx k n 0 hi) = n" and "list_all (\<lambda>v. v < hi) (randint jx k n 0 hi)"
proof -
  show "length (randint jx k n 0 hi) = n"
    using assms(1) by (simp add: random_ok_def)
  have "list_all (\<lambda>v. 0 \<le> v \<and> v < hi) (randint jx k n 0 hi)"
    using assms unfolding random_ok_def by blast
  then show "list_all (\<lambda>v. v < hi) (randint jx k n 0 hi)"
    by simp
qed

lemma sample_random_batch_gathers:
  fixes self :: "('a, 'o, 'i) buffer BufferSampler"
    and jx :: "('k, 'm, 'p, 'f, 'g, 'n, 'bt) collaborators"
    and rng_key :: 'k and batch_size :: nat
  assumes r: "random_ok jx" and s: "sampler_ok self"
  defines "batch_ids \<equiv> randint jx (split jx rng_key 2 ! 1) batch_size 0 (buffer_size self)"
  defines "env_ids \<equiv>
    randint jx (split jx (split jx rng_key 2 ! 0) 2 ! 1) batch_size 0 (num_envs self)"
  shows "sample_random_batch jx self rng_key batch_size =
           Inr \<lparr>log_p = map2 (\<lambda>t e. log_p (buffer self) ! t ! e) batch_ids env_ids,
                action = map2 (\<lambda>t e. action (buffer self) ! t ! e) batch_ids env_ids,
                env_obs = map2 (\<lambda>t e. env_obs (buffer self) ! t ! e) batch_ids env_ids,
                adv = map2 (\<lambda>t e. adv (buffer self) ! t ! e) batch_ids env_ids,
                reward = map2 (\<lambda>t e. reward (buffer self) ! t ! e) batch_ids env_ids,
                ret = map2 (\<lambda>t e. ret (buffer self) ! t ! e) batch_ids env_ids,
                value_fld = map2 (\<lambda>t e. value_fld (buffer self) ! t ! e) batch_ids env_ids,
                done_fld = map2 (\<lambda>t e. done_fld (buffer self) ! t ! e) batch_ids env_ids,
                ep_len = map2 (\<lambda>t e. ep_len (buffer self) ! t ! e) batch_ids env_ids\<rparr>"
proof -
  have T: "0 < buffer_size self" and E: "0 < num_envs self"
    using s by (simp_all add: sampler_ok_def)
  have len: "length batch_ids = length env_ids"
    unfolding batch_ids_def env_ids_def
    by (simp add: randint_in_range(1) [OF r T] randint_in_range(1) [OF r E])
  have ts: "list_all (\<lambda>t. t < buffer_size self) batch_ids"
    unfolding batch_ids_def by (rule randint_in_range(2) [OF r T])
  have es: "list_all (\<lambda>e. e < num_envs self) env_ids"
    unfolding env_ids_def by (rule randint_in_range(2) [OF r E])
  have g: "gather x batch_ids env_ids = Inr (map2 (\<lambda>t e. x ! t ! e) batch_ids env_ids)"
    if "field_ok (buffer_size self) (num_envs self) x" for x :: "'c list list"
    by (rule gather_in_range [OF that T E len ts es])
  have fields:
    "field_ok (buffer_size self) (num_envs self) (log_p (buffer self))"
    "field_ok (buffer_size self) (num_envs self) (action (buffer self))"
    "field_ok (buffer_size self) (num_envs self) (env_obs (buffer self))"
    "field_ok (buffer_size self) (num_envs self) (adv (buffer self))"
    "field_ok (buffer_size self) (num_envs self) (reward (buffer self))"
    "field_ok (buffer_size self) (num_envs self) (ret (buffer self))"
    "field_ok (buffer_size self) (num_envs self) (value_fld (buffer self))"
    "field_ok (buffer_size self) (num_envs self) (done_fld (buffer self))"
    "field_ok (buffer_size self) (num_envs self) (ep_len (buffer self))"
    using s by (simp_all add: sampler_ok_def)
  have by_ids: "get_batch_by_ids self batch_ids env_ids =
      Inr \<lparr>log_p = map2 (\<lambda>t e. log_p (buffer self) ! t ! e) batch_ids env_ids,
           action = map2 (\<lambda>t e. action (buffer self) ! t ! e) batch_ids env_ids,
           env_obs = map2 (\<lambda>t e. env_obs (buffer self) ! t ! e) batch_ids env_ids,
           adv = map2 (\<lambda>t e. adv (buffer self) ! t ! e) batch_ids env_ids,
           reward = map2 (\<lambda>t e. reward (buffer self) ! t ! e) batch_ids env_ids,
           ret = map2 (\<lambda>t e. ret (buffer self) ! t ! e) batch_ids env_ids,
           value_fld = map2 (\<lambda>t e. value_fld (buffer self) ! t ! e) batch_ids env_ids,
           done_fld = map2 (\<lambda>t e. done_fld (buffer self) ! t ! e) batch_ids env_ids,
           ep_len = map2 (\<lambda>t e. ep_len (buffer self) ! t ! e) batch_ids env_ids\<rparr>"
    unfolding get_batch_by_ids_def
    by (simp add: g [OF fields(1)] g [OF fields(2)] g [OF fields(3)] g [OF fields(4)]
        g [OF fields(5)] g [OF fields(6)] g [OF fields(7)] g [OF fields(8)] g [OF fields(9)]
        and_then_def)
  have "sample_random_batch jx self rng_key batch_size = get_batch_by_ids self batch_ids env_ids"
    unfolding sample_random_batch_def
    by (subst split_two [OF r], simp only: list.case Let_def,
        subst split_two [OF r], simp only: list.case Let_def batch_ids_def env_ids_def)
  then show ?thesis
    by (simp only: by_ids)
qed

text \<open>
  Claim C5. For a sampler over a buffer with \<open>buffer_size\<close> time steps and \<open>num_envs\<close>
  environments, \<open>sample_random_batch\<close> draws \<open>batch_size\<close> time indices and \<open>batch_size\<close>
  environment indices with \<open>jax.random.randint\<close>, each from a key of its own that is split
  off the key passed in, with ranges \<open>[0, buffer_size)\<close> and \<open>[0, num_envs)\<close>, and returns
  every field gathered at these pairs, with leading dimension \<open>batch_size\<close>. The pairs are
  used as drawn: nothing removes a repeated pair and nothing bounds \<open>batch_size\<close> by the
  number of cells. That the draws are uniform and independent is the contract of
  \<open>jax.random.randint\<close>, which is a parameter here.
\<close>

theorem sample_random_batch_with_replacement:
  fixes self :: "('a, 'o, 'i) buffer BufferSampler"
    and jx :: "('k, 'm, 'p, 'f, 'g, 'n, 'bt) collaborators"
    and rng_key :: 'k and batch_size :: nat
  assumes "random_ok jx" and "sampler_ok self"
  shows "\<exists>batch_ids env_ids batch.
      batch_ids = randint jx (split jx rng_key 2 ! 1) batch_size 0 (buffer_size self)
    \<and> env_ids = randint jx (split jx (split jx rng_key 2 ! 0) 2 ! 1) batch_size 0 (num_envs self)
    \<and> length batch_ids = batch_size \<and> length env_ids = batch_size
    \<and> (\<forall>i<batch_size. batch_ids ! i < buffer_size self \<and> env_ids ! i < num_envs self)
    \<and> sample_random_batch jx self rng_key batch_size = Inr batch
    \<and> length (log_p batch) = batch_size \<and> length (action batch) = batch_size
    \<and> length (env_obs batch) = batch_size \<and> length (adv batch) = batch_size
    \<and> length (reward batch) = batch_size \<and> length (ret batch) = batch_size
    \<and> length (value_fld batch) = batch_size \<and> length (done_fld batch) = batch_size
    \<and> length (ep_len batch) = batch_size
    \<and> (\<forall>i<batch_size.
          log_p batch ! i = log_p (buffer self) ! (batch_ids ! i) ! (env_ids ! i)
        \<and> action batch ! i = action (buffer self) ! (batch_ids ! i) ! (env_ids ! i)
        \<and> env_obs batch ! i = env_obs (buffer self) ! (batch_ids ! i) ! (env_ids ! i)
        \<and> adv batch ! i = adv (buffer self) ! (batch_ids ! i) ! (env_ids ! i)
        \<and> reward batch ! i = reward (buffer self) ! (batch_ids ! i) ! (env_ids ! i)
        \<and> ret batch ! i = ret (buffer self) ! (batch_ids ! i) ! (env_ids ! i)
        \<and> value_fld batch ! i = value_fld (buffer self) ! (batch_ids ! i) ! (env_ids ! i)
        \<and> done_fld batch ! i = done_fld (buffer self) ! (batch_ids ! i) ! (env_ids ! i)
        \<and> ep_len batch ! i = ep_len (buffer self) ! (batch_ids ! i) ! (env_ids ! i))"
proof -
  let ?ts = "randint jx (split jx rng_key 2 ! 1) batch_size 0 (buffer_size self)"
  let ?es = "randint jx (split jx (split jx rng_key 2 ! 0) 2 ! 1) batch_size 0 (num_envs self)"
  let ?batch = "\<lparr>log_p = map2 (\<lambda>t e. log_p (buffer self) ! t ! e) ?ts ?es,
                 action = map2 (\<lambda>t e. action (buffer self) ! t ! e) ?ts ?es,
                 env_obs = map2 (\<lambda>t e. env_obs (buffer self) ! t ! e) ?ts ?es,
                 adv = map2 (\<lambda>t e. adv (buffer self) ! t ! e) ?ts ?es,
                 reward = map2 (\<lambda>t e. reward (buffer self) ! t ! e) ?ts ?es,
                 ret = map2 (\<lambda>t e. ret (buffer self) ! t ! e) ?ts ?es,
                 value_fld = map2 (\<lambda>t e. value_fld (buffer self) ! t ! e) ?ts ?es,
                 done_fld = map2 (\<lambda>t e. done_fld (buffer self) ! t ! e) ?ts ?es,
                 ep_len = map2 (\<lambda>t e. ep_len (buffer self) ! t ! e) ?ts ?es\<rparr>"
  have T: "0 < buffer_size self" and E: "0 < num_envs self"
    using assms(2) by (simp_all add: sampler_ok_def)
  have lt: "length ?ts = batch_size" and le: "length ?es = batch_size"
    by (rule randint_in_range(1) [OF assms(1) T], rule randint_in_range(1) [OF assms(1) E])
  have range: "\<forall>i<batch_size. ?ts ! i < buffer_size self \<and> ?es ! i < num_envs self"
    using randint_in_range(2) [OF assms(1) T, of "split jx rng_key 2 ! 1" batch_size]
      randint_in_range(2) [OF assms(1) E, of "split jx (split jx rng_key 2 ! 0) 2 ! 1" batch_size]
      lt le
    by (simp add: list_all_length)
  have run: "sample_random_batch jx self rng_key batch_size = Inr ?batch"
    by (rule sample_random_batch_gathers [OF assms])
  have lens: "length (log_p ?batch) = batch_size \<and> length (action ?batch) = batch_size
    \<and> length (env_obs ?batch) = batch_size \<and> length (adv ?batch) = batch_size
    \<and> length (reward ?batch) = batch_size \<and> length (ret ?batch) = batch_size
    \<and> length (value_fld ?batch) = batch_size \<and> length (done_fld ?batch) = batch_size
    \<and> length (ep_len ?batch) = batch_size"
    using lt le by simp
  have cells: "\<forall>i<batch_size.
          log_p ?batch ! i = log_p (buffer self) ! (?ts ! i) ! (?es ! i)
        \<and> action ?batch ! i = action (buffer self) ! (?ts ! i) ! (?es ! i)
        \<and> env_obs ?batch ! i = env_obs (buffer self) ! (?ts ! i) ! (?es ! i)
        \<and> adv ?batch ! i = adv (buffer self) ! (?ts ! i) ! (?es ! i)
        \<and> reward ?batch ! i = reward (buffer self) ! (?ts ! i) ! (?es ! i)
        \<and> ret ?batch ! i = ret (buffer self) ! (?ts ! i) ! (?es ! i)
        \<and> value_fld ?batch ! i = value_fld (buffer self) ! (?ts ! i) ! (?es ! i)
        \<and> done_fld ?batch ! i = done_fld (buffer self) ! (?ts ! i) ! (?es ! i)
        \<and> ep_len ?batch ! i = ep_len (buffer self) ! (?ts ! i) ! (?es ! i)"
    using lt le by simp
  show ?thesis
    using lt le range run lens cells by blast
qed

lemma random_ok_example: "random_ok example_jx"
proof -
  have "lo + (k + i) mod (hi - lo) < hi" if "lo < hi" for lo hi k i :: nat
  proof -
    have "(k + i) mod (hi - lo) < hi - lo"
      using that by simp
    then show ?thesis
      by simp
  qed
  then show ?thesis
    by (simp add: random_ok_def example_jx_def example_split_def example_randint_def
        list_all_length)
qed

theorem sample_random_batch_with_replacement_witness:
  "random_ok example_jx
   \<and> sampler_ok \<lparr>buffer = example_buffer, buffer_size = 2, num_envs = 2\<rparr>
   \<and> sample_random_batch example_jx \<lparr>buffer = example_buffer, buffer_size = 2, num_envs = 2\<rparr> 0 3 =
       Inr \<lparr>log_p = [0, 3, 0], action = [(), (), ()], env_obs = [(), (), ()], adv = [4, 7, 4],
            reward = [1, 1, 1], ret = [8, 11, 8], value_fld = [0, 0, 0],
            done_fld = [False, True, False], ep_len = [1, 2, 1]\<rparr>
   \<and> [0, 3, 0 :: real] ! 2 = log_p example_buffer ! ([0, 1, 0] ! 2) ! ([0, 1, 0] ! 2)
   \<and> length [0, 3, 0 :: real] = 3"
proof -
  let ?S = "\<lparr>buffer = example_buffer, buffer_size = 2, num_envs = 2\<rparr>"
  let ?b = "\<lparr>log_p = [0, 3, 0], action = [(), (), ()], env_obs = [(), (), ()], adv = [4, 7, 4],
             reward = [1, 1, 1], ret = [8, 11, 8], value_fld = [0, 0, 0],
             done_fld = [False, True, False], ep_len = [1, 2, 1]\<rparr> :: (unit, unit, int) batch"
  have ok: "sampler_ok ?S"
    by (simp add: sampler_ok_def field_ok_def example_buffer_def)
  have run: "sample_random_batch example_jx ?S 0 3 = Inr ?b"
    by code_simp
  have ts: "randint example_jx (split example_jx (0 :: nat) 2 ! 1) 3 0 (buffer_size ?S) = [0, 1, 0]"
    by code_simp
  have es: "randint example_jx (split example_jx (split example_jx (0 :: nat) 2 ! 0) 2 ! 1) 3 0
      (num_envs ?S) = [0, 1, 0]"
    by code_simp
  obtain batch where b: "sample_random_batch example_jx ?S 0 3 = Inr batch"
    and len: "length (log_p batch) = 3"
    and cell: "\<forall>i<3. log_p batch ! i = log_p (buffer ?S)
        ! (randint example_jx (split example_jx (0 :: nat) 2 ! 1) 3 0 (buffer_size ?S) ! i)
        ! (randint example_jx (split example_jx (split example_jx (0 :: nat) 2 ! 0) 2 ! 1) 3 0
             (num_envs ?S) ! i)"
    using sample_random_batch_with_replacement [OF random_ok_example ok, of 0 3]
    by blast
  have "batch = ?b"
    using b run by simp
  moreover have "log_p batch ! 2 = log_p example_buffer ! ([0, 1, 0] ! 2) ! ([0, 1, 0] ! 2)"
    using cell [rule_format, of 2] unfolding ts es by simp
  ultimately have "length (log_p ?b) = 3
      \<and> log_p ?b ! 2 = log_p example_buffer ! ([0, 1, 0] ! 2) ! ([0, 1, 0] ! 2)"
    using len by simp
  then show ?thesis
    using random_ok_example ok run by simp
qed

subsection \<open>Properties of the update loop\<close>

lemma scan_append:
  "scan f c (xs @ ys) =
     (case scan f c xs of
        Inl e \<Rightarrow> Inl e
      | Inr (c', zs) \<Rightarrow>
          (case scan f c' ys of
             Inl e \<Rightarrow> Inl e
           | Inr (c'', ws) \<Rightarrow> Inr (c'', zs @ ws)))"
  by (induction xs arbitrary: c) (auto split: sum.splits prod.splits)

lemma scan_total:
  assumes "\<And>c x. \<exists>c' y. f c x = Inr (c', y)"
  shows "\<exists>c' ys. scan f c xs = Inr (c', ys) \<and> length ys = length xs"
proof (induction xs arbitrary: c)
  case Nil
  show ?case by simp
next
  case (Cons x xs)
  obtain c1 y where step: "f c x = Inr (c1, y)"
    using assms by blast
  obtain c2 ys where rest: "scan f c1 xs = Inr (c2, ys)" and len: "length ys = length xs"
    using Cons.IH by blast
  show ?case
    by (simp add: step rest len)
qed

lemma scan_invariant:
  assumes "P c"
    and "\<And>c x c' y. P c \<Longrightarrow> f c x = Inr (c', y) \<Longrightarrow> P c'"
    and "scan f c xs = Inr (c', ys)"
  shows "P c'"
  using assms(1,3)
proof (induction xs arbitrary: c ys)
  case Nil
  then show ?case by simp
next
  case (Cons x xs)
  from Cons.prems(2) obtain c1 y ys1 where step: "f c x = Inr (c1, y)"
    and rest: "scan f c1 xs = Inr (c', ys1)"
    by (auto split: sum.splits prod.splits)
  have "P c1"
    using assms(2) [OF Cons.prems(1) step] .
  then show ?case
    using Cons.IH rest by blast
qed

lemma update_step_fn_returns:
  fixes sampler :: "('a, 'o, 'i) buffer BufferSampler"
    and jx :: "('k, 'm, 'p, 'f, 'g, 'n, ('a, 'o, 'i) batch) collaborators"
  assumes r: "random_ok jx" and s: "sampler_ok sampler"
  shows "\<exists>batch info. sample_random_batch jx sampler (split jx k 2 ! 1) bs = Inr batch
           \<and> update_step_fn jx cfg sampler ua uc bs (k, a, c) u =
               Inr ((split jx k 2 ! 0,
                     if ua then actor_update jx cfg batch a else a,
                     if uc then critic_update jx batch c else c), info)"
proof -
  obtain batch where b: "sample_random_batch jx sampler (split jx k 2 ! 1) bs = Inr batch"
    using sample_random_batch_gathers [OF r s] by blast
  have "update_step_fn jx cfg sampler ua uc bs (k, a, c) u =
      Inr ((split jx k 2 ! 0,
            if ua then actor_update jx cfg batch a else a,
            if uc then critic_update jx batch c else c),
           (if ua then Some (snd (grad jx (actor_loss_fn jx (clip_ratio cfg) (apply_fn jx a) batch)
                                    (params jx a))) else None,
            if uc then Some (snd (grad jx (critic_loss_fn jx (apply_fn jx c) batch)
                                    (params jx c))) else None))"
    unfolding update_step_fn_def prod.case
    by (subst split_two [OF r], simp only: list.case b sum.case,
        simp add: actor_update_def critic_update_def Let_def split: prod.splits)
  with b show ?thesis
    by blast
qed

lemma update_step_fn_frame:
  assumes "update_step_fn jx cfg sampler ua uc bs carry u = Inr (carry', info)"
  shows "(\<not> ua \<longrightarrow> fst (snd carry') = fst (snd carry))
       \<and> (\<not> uc \<longrightarrow> snd (snd carry') = snd (snd carry))"
proof -
  obtain k a c where c: "carry = (k, a, c)"
    by (cases carry) auto
  obtain k' a' c' where c': "carry' = (k', a', c')"
    by (cases carry') auto
  show ?thesis
    using assms unfolding update_step_fn_def c c'
    by (auto simp: Let_def split: list.splits sum.splits prod.splits if_splits)
qed

lemma update_parameters_scan:
  "update_parameters jx cfg rng_key actor critic ua uc n envs bs buf =
     (case scan (update_step_fn jx cfg
                   \<lparr>buffer = buf, buffer_size = length (action buf), num_envs = envs\<rparr> ua uc bs)
             (rng_key, actor, critic) (replicate n ()) of
        Inl e \<Rightarrow> Inl e
      | Inr ((k, a, c), aux) \<Rightarrow> Inr (a, c, aux))"
  by (simp add: update_parameters_def Let_def split: sum.splits prod.splits)

lemma sampler_ok_example:
  "sampler_ok \<lparr>buffer = example_buffer, buffer_size = length (action example_buffer), num_envs = 2\<rparr>"
  by (simp add: sampler_ok_def field_ok_def example_buffer_def)

text \<open>
  Claim C7. For every number of inner steps, the step that follows \<open>n\<close> completed steps
  starts from their carry \<open>(k, a, c)\<close>: it splits \<open>k\<close>, samples a batch with the second of
  the two keys, hands the first one on, and takes the gradients of the actor and of the
  critic at \<open>a\<close> and \<open>c\<close>, the models that step \<open>n\<close> produced. So \<open>update_iters\<close> steps run one
  after the other, each with a batch of its own, and the auxiliary output has one entry per
  step.
\<close>

theorem update_parameters_sequential:
  fixes buf :: "('a, 'o, 'i) buffer"
    and jx :: "('k, 'm, 'p, 'f, 'g, 'n, ('a, 'o, 'i) batch) collaborators"
  assumes "random_ok jx"
    and "sampler_ok \<lparr>buffer = buf, buffer_size = length (action buf), num_envs = envs\<rparr>"
  shows "\<exists>k a c aux batch info.
      scan (update_step_fn jx cfg
              \<lparr>buffer = buf, buffer_size = length (action buf), num_envs = envs\<rparr> ua uc bs)
        (rng_key, actor, critic) (replicate n ()) = Inr ((k, a, c), aux)
    \<and> length aux = n
    \<and> update_parameters jx cfg rng_key actor critic ua uc n envs bs buf = Inr (a, c, aux)
    \<and> sample_random_batch jx
          \<lparr>buffer = buf, buffer_size = length (action buf), num_envs = envs\<rparr>
          (split jx k 2 ! 1) bs = Inr batch
    \<and> scan (update_step_fn jx cfg
              \<lparr>buffer = buf, buffer_size = length (action buf), num_envs = envs\<rparr> ua uc bs)
        (rng_key, actor, critic) (replicate (Suc n) ()) =
          Inr ((split jx k 2 ! 0,
                if ua then actor_update jx cfg batch a else a,
                if uc then critic_update jx batch c else c), aux @ [info])
    \<and> update_parameters jx cfg rng_key actor critic ua uc (Suc n) envs bs buf =
          Inr (if ua then actor_update jx cfg batch a else a,
               if uc then critic_update jx batch c else c, aux @ [info])"
proof -
  let ?S = "\<lparr>buffer = buf, buffer_size = length (action buf), num_envs = envs\<rparr>"
  let ?f = "update_step_fn jx cfg ?S ua uc bs"
  have step: "\<exists>c' y. ?f c u = Inr (c', y)" for c u
  proof -
    obtain k a m where c: "c = (k, a, m)"
      by (cases c) auto
    show ?thesis
      unfolding c using update_step_fn_returns [OF assms, of k bs cfg ua uc a m u] by blast
  qed
  obtain carry aux where run: "scan ?f (rng_key, actor, critic) (replicate n ()) = Inr (carry, aux)"
    and len: "length aux = length (replicate n ())"
    using scan_total [of ?f "(rng_key, actor, critic)" "replicate n ()"] step by blast
  obtain k a c where carry: "carry = (k, a, c)"
    by (cases carry) auto
  obtain batch info where b: "sample_random_batch jx ?S (split jx k 2 ! 1) bs = Inr batch"
    and one: "?f (k, a, c) () =
        Inr ((split jx k 2 ! 0,
              if ua then actor_update jx cfg batch a else a,
              if uc then critic_update jx batch c else c), info)"
    using update_step_fn_returns [OF assms, of k bs cfg ua uc a c "()"] by blast
  have more: "scan ?f (rng_key, actor, critic) (replicate (Suc n) ()) =
      Inr ((split jx k 2 ! 0,
            if ua then actor_update jx cfg batch a else a,
            if uc then critic_update jx batch c else c), aux @ [info])"
    unfolding replicate_Suc [of n] replicate_append_same [symmetric] scan_append
    by (simp add: run carry one)
  have "update_parameters jx cfg rng_key actor critic ua uc n envs bs buf = Inr (a, c, aux)"
    unfolding update_parameters_scan by (simp add: run carry)
  moreover have "update_parameters jx cfg rng_key actor critic ua uc (Suc n) envs bs buf =
      Inr (if ua then actor_update jx cfg batch a else a,
           if uc then critic_update jx batch c else c, aux @ [info])"
    unfolding update_parameters_scan more by simp
  moreover have "scan ?f (rng_key, actor, critic) (replicate n ()) = Inr ((k, a, c), aux)"
    using run carry by simp
  moreover have "length aux = n"
    using len by simp
  ultimately show ?thesis
    using b more by blast
qed

theorem update_parameters_sequential_witness:
  "random_ok example_jx
   \<and> sampler_ok \<lparr>buffer = example_buffer, buffer_size = length (action example_buffer),
        num_envs = 2\<rparr>
   \<and> update_parameters example_jx default_cfg 0 10 20 True True 1 2 3 example_buffer =
       Inr (9, 19, [(Some (), Some ())])
   \<and> update_parameters example_jx default_cfg 0 10 20 True True (Suc 1) 2 3 example_buffer =
       Inr (9 - 1, 19 - 1, [(Some (), Some ())] @ [(Some (), Some ())])"
proof -
  have one: "update_parameters example_jx default_cfg 0 10 20 True True 1 2 3 example_buffer =
      Inr (9, 19, [(Some (), Some ())])"
    by code_simp
  obtain a c aux batch info
    where n1: "update_parameters example_jx default_cfg 0 10 20 True True 1 2 3 example_buffer =
        Inr (a, c, aux)"
      and n2: "update_parameters example_jx default_cfg 0 10 20 True True (Suc 1) 2 3 example_buffer =
        Inr (if True then actor_update example_jx default_cfg batch a else a,
             if True then critic_update example_jx batch c else c, aux @ [info])"
    using update_parameters_sequential
      [OF random_ok_example sampler_ok_example, of default_cfg True True 3 0 10 20 1]
    by blast
  have acs: "a = 9" "c = 19" "aux = [(Some (), Some ())]"
    using n1 one by simp_all
  have two: "update_parameters example_jx default_cfg 0 10 20 True True (Suc 1) 2 3 example_buffer =
      Inr (8, 18, [(Some (), Some ()), (Some (), Some ())])"
    by code_simp
  have info: "info = (Some (), Some ())"
    using n2 two unfolding acs by simp
  have "update_parameters example_jx default_cfg 0 10 20 True True (Suc 1) 2 3 example_buffer =
      Inr (9 - 1, 19 - 1, [(Some (), Some ())] @ [(Some (), Some ())])"
    using n2 unfolding acs info
    by (simp add: actor_update_def critic_update_def example_jx_def)
  then show ?thesis
    using random_ok_example sampler_ok_example one by blast
qed

text \<open>
  Claim C10. Whenever \<open>update_parameters\<close> returns, a call with \<open>update_actor = False\<close>
  returns the actor it was given and a call with \<open>update_critic = False\<close> returns the critic
  it was given, for every key, buffer, batch size and number of steps. And it does return
  whenever the random number generator keeps its contract and the buffer is not empty.
\<close>

theorem update_parameters_frame:
  fixes buf :: "('a, 'o, 'i) buffer"
    and jx :: "('k, 'm, 'p, 'f, 'g, 'n, ('a, 'o, 'i) batch) collaborators"
  shows "(case update_parameters jx cfg rng_key actor critic False uc n envs bs buf of
            Inl e \<Rightarrow> True
          | Inr (a, c, aux) \<Rightarrow> a = actor)
       \<and> (case update_parameters jx cfg rng_key actor critic ua False n envs bs buf of
            Inl e \<Rightarrow> True
          | Inr (a, c, aux) \<Rightarrow> c = critic)
       \<and> (random_ok jx
            \<and> sampler_ok \<lparr>buffer = buf, buffer_size = length (action buf), num_envs = envs\<rparr>
          \<longrightarrow> \<not> isl (update_parameters jx cfg rng_key actor critic ua uc n envs bs buf))"
proof (intro conjI impI)
  let ?S = "\<lparr>buffer = buf, buffer_size = length (action buf), num_envs = envs\<rparr>"
  have keep_actor: "fst (snd carry) = actor"
    if "scan (update_step_fn jx cfg ?S False uc bs) (rng_key, actor, critic) xs = Inr (carry, aux)"
    for carry aux xs
  proof (rule scan_invariant [where P = "\<lambda>carry. fst (snd carry) = actor", OF _ _ that])
    show "fst (snd (rng_key, actor, critic)) = actor"
      by simp
    show "fst (snd c') = actor"
      if "fst (snd c) = actor" and "update_step_fn jx cfg ?S False uc bs c x = Inr (c', y)"
      for c x c' y
      using that update_step_fn_frame [of jx cfg ?S False uc bs c x c' y]
      by simp
  qed
  have keep_critic: "snd (snd carry) = critic"
    if "scan (update_step_fn jx cfg ?S ua False bs) (rng_key, actor, critic) xs = Inr (carry, aux)"
    for carry aux xs
  proof (rule scan_invariant [where P = "\<lambda>carry. snd (snd carry) = critic", OF _ _ that])
    show "snd (snd (rng_key, actor, critic)) = critic"
      by simp
    show "snd (snd c') = critic"
      if "snd (snd c) = critic" and "update_step_fn jx cfg ?S ua False bs c x = Inr (c', y)"
      for c x c' y
      using that update_step_fn_frame [of jx cfg ?S ua False bs c x c' y]
      by simp
  qed
  show "case update_parameters jx cfg rng_key actor critic False uc n envs bs buf of
          Inl e \<Rightarrow> True
        | Inr (a, c, aux) \<Rightarrow> a = actor"
    unfolding update_parameters_scan
    using keep_actor [of "replicate n ()"] by (auto split: sum.splits prod.splits)
  show "case update_parameters jx cfg rng_key actor critic ua False n envs bs buf of
          Inl e \<Rightarrow> True
        | Inr (a, c, aux) \<Rightarrow> c = critic"
    unfolding update_parameters_scan
    using keep_critic [of "replicate n ()"] by (auto split: sum.splits prod.splits)
  show "\<not> isl (update_parameters jx cfg rng_key actor critic ua uc n envs bs buf)"
    if ok: "random_ok jx \<and> sampler_ok ?S"
  proof -
    have step: "\<exists>c' y. update_step_fn jx cfg ?S ua uc bs c u = Inr (c', y)" for c u
    proof -
      obtain k a m where c: "c = (k, a, m)"
        by (cases c) auto
      show ?thesis
        unfolding c
        using update_step_fn_returns [of jx ?S k bs cfg ua uc a m u] ok by blast
    qed
    obtain carry aux
      where "scan (update_step_fn jx cfg ?S ua uc bs) (rng_key, actor, critic) (replicate n ())
        = Inr (carry, aux)"
      using scan_total [of "update_step_fn jx cfg ?S ua uc bs" "(rng_key, actor, critic)"
          "replicate n ()"] step
      by blast
    then show ?thesis
      unfolding update_parameters_scan by (simp split: prod.splits)
  qed
qed

theorem update_parameters_frame_witness:
  "update_parameters example_jx default_cfg 0 10 20 False True 2 2 3 example_buffer =
     Inr (10, 18, [(None, Some ()), (None, Some ())])
   \<and> update_parameters example_jx default_cfg 0 10 20 True False 2 2 3 example_buffer =
     Inr (8, 20, [(Some (), None), (Some (), None)])
   \<and> \<not> isl (update_parameters example_jx default_cfg 0 10 20 True True 2 2 3 example_buffer)"
proof -
  have frame: "(case update_parameters example_jx default_cfg 0 10 20 False True 2 2 3 example_buffer of
            Inl e \<Rightarrow> True
          | Inr (a, c, aux) \<Rightarrow> a = 10)
       \<and> (case update_parameters example_jx default_cfg 0 10 20 True False 2 2 3 example_buffer of
            Inl e \<Rightarrow> True
          | Inr (a, c, aux) \<Rightarrow> c = 20)
       \<and> (random_ok example_jx
            \<and> sampler_ok \<lparr>buffer = example_buffer, buffer_size = length (action example_buffer),
                 num_envs = 2\<rparr>
          \<longrightarrow> \<not> isl (update_parameters example_jx default_cfg 0 10 20 True True 2 2 3
                       example_buffer))"
    by (rule update_parameters_frame)
  have returns: "\<not> isl (update_parameters example_jx default_cfg 0 10 20 True True 2 2 3
      example_buffer)"
    using frame random_ok_example sampler_ok_example by blast
  have critic_only: "update_parameters example_jx default_cfg 0 10 20 False True 2 2 3 example_buffer =
      Inr (10, 18, [(None, Some ()), (None, Some ())])"
    by code_simp
  have actor_only: "update_parameters example_jx default_cfg 0 10 20 True False 2 2 3 example_buffer =
      Inr (8, 20, [(Some (), None), (Some (), None)])"
    by code_simp
  show ?thesis
    using returns critic_only actor_only by blast
qed

end
